theory Spec2Isabelle
  imports Main "HOL-Library.Log_Nat" "HOL-Library.Sublist" "HOL-Library.AList"
begin

section \<open>Python values\<close>

text \<open>
  The backend (\<^verbatim>\<open>src/backend/app.py\<close>) is a Flask application. Its routes work on
  the values that \<^verbatim>\<open>json.loads\<close> and \<^verbatim>\<open>request.get_json\<close> produce, so the model
  keeps them as one datatype of JSON values. A Python \<^verbatim>\<open>str\<close> is a \<open>string\<close>; one
  \<open>char\<close> stands for one code point in the range 0..255, and the string functions
  below (\<^verbatim>\<open>lower\<close>, \<^verbatim>\<open>split\<close>, \<^verbatim>\<open>strip\<close>) are Python's on that range. A dict is an
  association list in insertion order whose keys are distinct (\<^verbatim>\<open>json.loads\<close>
  produces no other), and Python's \<^verbatim>\<open>None\<close> is \<open>JNull\<close>.
\<close>

datatype pyfloat = Finite rat | PosInf | NegInf | NaN

datatype json =
    JNull
  | JBool bool
  | JInt int
  | JFloat pyfloat
  | JStr string
  | JArr "json list"
  | JObj "(string \<times> json) list"

text \<open>The exception classes that the source raises or catches by name.\<close>

datatype py_exception =
    KeyError
  | TypeError
  | AttributeError
  | FileNotFoundError
  | TimeoutExpired
  | JSONDecodeError
  | OtherException

text \<open>Truth value of a Python object, as \<^verbatim>\<open>not x\<close> and \<^verbatim>\<open>x or y\<close> read it.\<close>

fun truthy :: "json \<Rightarrow> bool" where
  "truthy JNull = False"
| "truthy (JBool b) = b"
| "truthy (JInt i) = (i \<noteq> 0)"
| "truthy (JFloat f) = (f \<noteq> Finite 0)"
| "truthy (JStr s) = (s \<noteq> [])"
| "truthy (JArr xs) = (xs \<noteq> [])"
| "truthy (JObj m) = (m \<noteq> [])"

text \<open>\<^verbatim>\<open>d.get(k)\<close> on a dict: \<^verbatim>\<open>None\<close> when the key is absent.\<close>

definition dict_get :: "(string \<times> json) list \<Rightarrow> string \<Rightarrow> json" where
  "dict_get m k = (case map_of m k of None \<Rightarrow> JNull | Some v \<Rightarrow> v)"

text \<open>\<^verbatim>\<open>x[k]\<close> with a string key: only a dict accepts it, and only for a key it has.\<close>

fun getitem :: "json \<Rightarrow> string \<Rightarrow> py_exception + json" where
  "getitem (JObj m) k = (case map_of m k of None \<Rightarrow> Inl KeyError | Some v \<Rightarrow> Inr v)"
| "getitem _ k = Inl TypeError"

text \<open>
  \<^verbatim>\<open>for x in v\<close> and \<^verbatim>\<open>len(v)\<close>: a list gives its elements, a string its
  characters, a dict its keys; every other JSON value raises \<^verbatim>\<open>TypeError\<close>.
\<close>

fun iterate :: "json \<Rightarrow> py_exception + json list" where
  "iterate (JArr xs) = Inr xs"
| "iterate (JStr s) = Inr (map (\<lambda>c. JStr [c]) s)"
| "iterate (JObj m) = Inr (map (\<lambda>kv. JStr (fst kv)) m)"
| "iterate _ = Inl TypeError"

fun py_len :: "json \<Rightarrow> py_exception + nat" where
  "py_len (JArr xs) = Inr (length xs)"
| "py_len (JStr s) = Inr (length s)"
| "py_len (JObj m) = Inr (length m)"
| "py_len _ = Inl TypeError"

subsection \<open>Strings\<close>

text \<open>\<^verbatim>\<open>str.isspace\<close> on one character: the twelve whitespace code points below 256.\<close>

definition isspace :: "char \<Rightarrow> bool" where
  "isspace c =
     (let n = (of_char c :: nat)
      in (9 \<le> n \<and> n \<le> 13) \<or> (28 \<le> n \<and> n \<le> 32) \<or> n = 133 \<or> n = 160)"

text \<open>
  \<^verbatim>\<open>str.lower\<close>: the upper-case letters are A..Z and the Latin-1 capitals 192..222
  except the multiplication sign 215; each lower-case letter is 32 above.
\<close>

definition isupper :: "char \<Rightarrow> bool" where
  "isupper c =
     (let n = (of_char c :: nat)
      in (65 \<le> n \<and> n \<le> 90) \<or> (192 \<le> n \<and> n \<le> 222 \<and> n \<noteq> 215))"

definition lower_char :: "char \<Rightarrow> char" where
  "lower_char c = (if isupper c then char_of (of_char c + (32 :: nat)) else c)"

definition lower :: "string \<Rightarrow> string" where
  "lower s = map lower_char s"

text \<open>
  \<^verbatim>\<open>str.split()\<close> without arguments: runs of whitespace separate the tokens, and
  leading and trailing whitespace gives no empty token.
\<close>

function split :: "string \<Rightarrow> string list" where
  "split [] = []"
| "split (c # cs) =
     (if isspace c then split cs
      else takeWhile (\<lambda>x. \<not> isspace x) (c # cs) # split (dropWhile (\<lambda>x. \<not> isspace x) cs))"
  by pat_completeness auto
termination
  by (relation "measure length") (auto simp: le_imp_less_Suc length_dropWhile_le)

text \<open>\<^verbatim>\<open>str.strip()\<close>: whitespace removed at both ends.\<close>

definition strip :: "string \<Rightarrow> string" where
  "strip s = rev (dropWhile isspace (rev (dropWhile isspace s)))"

text \<open>\<^verbatim>\<open>str(n)\<close> for an integer: its decimal digits, with a minus sign when negative.\<close>

fun digits :: "nat \<Rightarrow> string" where
  "digits n =
     (if n < 10 then [char_of (48 + n)] else digits (n div 10) @ [char_of (48 + n mod 10)])"

definition str_int :: "int \<Rightarrow> string" where
  "str_int i = (if i < 0 then CHR ''-'' # digits (nat (- i)) else digits (nat i))"

text \<open>
  \<^verbatim>\<open>str(x)\<close> for a JSON value. For \<^verbatim>\<open>None\<close>, booleans, integers and strings the
  result is written out; for floats, lists and dicts it is Python's \<^verbatim>\<open>repr\<close>, which
  the model takes as the parameter \<open>repr\<close>.
\<close>

fun py_str :: "(json \<Rightarrow> string) \<Rightarrow> json \<Rightarrow> string" where
  "py_str repr JNull = ''None''"
| "py_str repr (JBool b) = (if b then ''True'' else ''False'')"
| "py_str repr (JInt i) = str_int i"
| "py_str repr (JStr s) = s"
| "py_str repr v = repr v"

subsection \<open>Floating-point arithmetic\<close>

text \<open>
  A finite double is modelled by the rational number it denotes. \<open>round_double\<close>
  rounds a rational to the nearest number with a 53-bit significand, ties to even,
  which is what Python's \<^verbatim>\<open>int / int\<close> and \<^verbatim>\<open>float * int\<close> do to the exact
  result (the exponent range is not modelled: the scorer's values lie between
  \<open>1 / total\<close> and 100).
\<close>

definition round_half_even :: "rat \<Rightarrow> int" where
  "round_half_even x =
     (let f = \<lfloor>x\<rfloor>; d = x - of_int f
      in if d < 1 / 2 then f else if 1 / 2 < d then f + 1 else if even f then f else f + 1)"

definition pow2 :: "int \<Rightarrow> rat" where
  "pow2 e = (if 0 \<le> e then 2 ^ nat e else 1 / 2 ^ nat (- e))"

text \<open>The exponent \<open>e\<close> with \<open>2 ^ e \<le> \<bar>x\<bar> < 2 ^ (e + 1)\<close>, for \<open>x \<noteq> 0\<close>.\<close>

definition binary_exponent :: "rat \<Rightarrow> int" where
  "binary_exponent x =
     (let (a, b) = quotient_of \<bar>x\<bar>; k = bitlen a - bitlen b
      in if \<bar>x\<bar> < pow2 k then k - 1 else k)"

definition round_double :: "rat \<Rightarrow> rat" where
  "round_double x =
     (if x = 0 then 0
      else let e = binary_exponent x - 52
           in of_int (round_half_even (x / pow2 e)) * pow2 e)"

text \<open>A Python number: the scorer's percentage is the int \<open>0\<close> or a float.\<close>

datatype number = PyInt int | PyFloat rat

fun number_value :: "number \<Rightarrow> rat" where
  "number_value (PyInt i) = of_int i"
| "number_value (PyFloat x) = x"

section \<open>Quiz scorer\<close>

text \<open>
  The route \<^verbatim>\<open>submit_quiz\<close>. The submitted answers are a JSON object from question
  id (as a string) to answer string, modelled as a map. \<^verbatim>\<open>answers.get(k) == a\<close>
  compares \<^verbatim>\<open>None\<close> or a string with the JSON value \<open>a\<close> of the question.
\<close>

record score_result =
  correct :: nat
  total :: nat
  percentage :: number
  passed :: bool

definition answer_matches :: "string option \<Rightarrow> json \<Rightarrow> bool" where
  "answer_matches submitted a =
     (case submitted of None \<Rightarrow> a = JNull | Some s \<Rightarrow> a = JStr s)"

text \<open>The loop over \<^verbatim>\<open>quiz['questions']\<close>, with \<^verbatim>\<open>correct_count\<close> as accumulator.\<close>

fun count_correct ::
  "(json \<Rightarrow> string) \<Rightarrow> (string \<rightharpoonup> string) \<Rightarrow> nat \<Rightarrow> json list \<Rightarrow> py_exception + nat" where
  "count_correct repr answers correct_count [] = Inr correct_count"
| "count_correct repr answers correct_count (question # rest) =
     (case getitem question ''id'' of
        Inl e \<Rightarrow> Inl e
      | Inr qid \<Rightarrow>
          (case getitem question ''answer'' of
             Inl e \<Rightarrow> Inl e
           | Inr a \<Rightarrow>
               count_correct repr answers
                 (if answer_matches (answers (py_str repr qid)) a
                  then correct_count + 1 else correct_count)
                 rest))"

definition score_quiz ::
  "(json \<Rightarrow> string) \<Rightarrow> json \<Rightarrow> (string \<rightharpoonup> string) \<Rightarrow> py_exception + score_result" where
  "score_quiz repr quiz answers =
     (case getitem quiz ''questions'' of
        Inl e \<Rightarrow> Inl e
      | Inr qs \<Rightarrow>
          (case iterate qs of
             Inl e \<Rightarrow> Inl e
           | Inr questions \<Rightarrow>
               (case count_correct repr answers 0 questions of
                  Inl e \<Rightarrow> Inl e
                | Inr correct_count \<Rightarrow>
                    (case py_len qs of
                       Inl e \<Rightarrow> Inl e
                     | Inr total_questions \<Rightarrow>
                         (let percentage =
                            (if total_questions > 0
                             then PyFloat (round_double
                               (round_double (of_nat correct_count / of_nat total_questions) * 100))
                             else PyInt 0)
                          in Inr \<lparr>correct = correct_count, total = total_questions,
                                  percentage = percentage,
                                  passed = (70 \<le> number_value percentage)\<rparr>)))))"

text \<open>
  The lookup \<^verbatim>\<open>next((q for q in quizzes.values() if q['quiz_id'] == quiz_id), None)\<close>
  over the stored quizzes in insertion order.
\<close>

fun find_quiz :: "json list \<Rightarrow> string \<Rightarrow> py_exception + json option" where
  "find_quiz [] quiz_id = Inr None"
| "find_quiz (q # qs) quiz_id =
     (case getitem q ''quiz_id'' of
        Inl e \<Rightarrow> Inl e
      | Inr v \<Rightarrow> if v = JStr quiz_id then Inr (Some q) else find_quiz qs quiz_id)"

datatype 'a response = Status200 'a | Status400 | Status404 | Raised py_exception

definition submit_quiz ::
  "(json \<Rightarrow> string) \<Rightarrow> (string \<times> json) list \<Rightarrow> string \<Rightarrow> (string \<rightharpoonup> string)
     \<Rightarrow> score_result response" where
  "submit_quiz repr quizzes quiz_id answers =
     (case find_quiz (map snd quizzes) quiz_id of
        Inl e \<Rightarrow> Raised e
      | Inr None \<Rightarrow> Status404
      | Inr (Some quiz) \<Rightarrow>
          if \<not> truthy quiz then Status404
          else (case score_quiz repr quiz answers of
                  Inl e \<Rightarrow> Raised e
                | Inr r \<Rightarrow> Status200 r))"

text \<open>
  What \<S>3 of the specification asks of a question and of a quiz, as predicates on
  the JSON values the routes hold.
\<close>

fun is_str :: "json \<Rightarrow> bool" where
  "is_str (JStr s) = True"
| "is_str _ = False"

fun is_int :: "json \<Rightarrow> bool" where
  "is_int (JInt i) = True"
| "is_int _ = False"

definition field_is :: "(json \<Rightarrow> bool) \<Rightarrow> json \<Rightarrow> string \<Rightarrow> bool" where
  "field_is P v k = (case getitem v k of Inl e \<Rightarrow> False | Inr x \<Rightarrow> P x)"

fun options_inv :: "json \<Rightarrow> json \<Rightarrow> bool" where
  "options_inv (JArr opts) (JStr a) =
     (list_all is_str opts \<and> JStr a \<in> set opts \<and> length opts = 4 \<and> distinct opts)"
| "options_inv _ _ = False"

definition question_inv :: "json \<Rightarrow> bool" where
  "question_inv q =
     (case getitem q ''options'' of
        Inl e \<Rightarrow> False
      | Inr opts \<Rightarrow> (case getitem q ''answer'' of Inl e \<Rightarrow> False | Inr a \<Rightarrow> options_inv opts a))"

definition well_formed_question :: "json \<Rightarrow> bool" where
  "well_formed_question q =
     (field_is is_int q ''id'' \<and> field_is is_str q ''text'' \<and> question_inv q)"

fun questions_inv :: "json \<Rightarrow> bool" where
  "questions_inv (JArr qs) =
     ((qs = [] \<or> length qs = 4) \<and> list_all well_formed_question qs
      \<and> distinct (map (\<lambda>q. getitem q ''id'') qs))"
| "questions_inv _ = False"

definition well_formed_quiz :: "json \<Rightarrow> bool" where
  "well_formed_quiz quiz =
     (field_is is_str quiz ''quiz_id'' \<and> field_is is_str quiz ''video_id''
      \<and> field_is questions_inv quiz ''questions'')"

definition quiz_questions :: "json \<Rightarrow> json list" where
  "quiz_questions quiz = (case getitem quiz ''questions'' of Inr (JArr qs) \<Rightarrow> qs | _ \<Rightarrow> [])"

definition question_id :: "json \<Rightarrow> int" where
  "question_id q = (case getitem q ''id'' of Inr (JInt i) \<Rightarrow> i | _ \<Rightarrow> 0)"

definition question_answer :: "json \<Rightarrow> string" where
  "question_answer q = (case getitem q ''answer'' of Inr (JStr a) \<Rightarrow> a | _ \<Rightarrow> [])"

text \<open>
  A question is answered correctly when the answers map has an entry under the
  question's id written in decimal, and that entry is the question's answer string.
\<close>

definition answered_correctly :: "(string \<rightharpoonup> string) \<Rightarrow> json \<Rightarrow> bool" where
  "answered_correctly answers q = (answers (str_int (question_id q)) = Some (question_answer q))"

section \<open>The environment of a request\<close>

text \<open>
  Everything a request reads from outside the process is a field of the environment:
  the outcome of each file operation, model call and subprocess run, the
  \<^verbatim>\<open>uuid4().hex[:8]\<close> suffixes, the clock, and the library parser \<^verbatim>\<open>json.loads\<close>.
  An operation that raises gives \<open>Inl\<close> with the exception.
\<close>

record chat_request =
  system_message :: string
  user_message :: string
  json_object_format :: bool

record completed_process =
  returncode :: int
  stderr :: string

record environment =
  read_file :: "string \<Rightarrow> py_exception + string"
  write_file :: "string \<Rightarrow> string \<Rightarrow> py_exception + unit"
  chat_completion :: "chat_request \<Rightarrow> py_exception + string option"
  run_process :: "string list \<Rightarrow> py_exception + completed_process"
  listdir :: "string \<Rightarrow> py_exception + string list"
  getmtime :: "string \<Rightarrow> py_exception + rat"
  json_loads :: "string \<Rightarrow> py_exception + json"
  video_hex :: string
  script_hex :: string
  quiz_hex :: string
  now_isoformat :: string

definition VIDEO_FOLDER :: string where
  "VIDEO_FOLDER = ''media/videos''"

definition generate_video_id :: "environment \<Rightarrow> string" where
  "generate_video_id env = ''vid_'' @ video_hex env"

definition generate_quiz_id :: "environment \<Rightarrow> string" where
  "generate_quiz_id env = ''quiz_'' @ quiz_hex env"

section \<open>Code extractor and renderer\<close>

text \<open>
  \<open>find_sub pat s\<close> cuts \<open>s\<close> at the first occurrence of \<open>pat\<close>: the text before
  it and the text after it.
\<close>

fun find_sub :: "string \<Rightarrow> string \<Rightarrow> (string \<times> string) option" where
  "find_sub pat [] = (if pat = [] then Some ([], []) else None)"
| "find_sub pat (c # cs) =
     (if prefix pat (c # cs) then Some ([], drop (length pat) (c # cs))
      else map_option (\<lambda>(before, after). (c # before, after)) (find_sub pat cs))"

definition fence :: string where
  "fence = ''```''"

definition python_fence :: string where
  "python_fence = ''```python''"

text \<open>
  \<^verbatim>\<open>re.search(r"```python(.*?)```", code, re.DOTALL)\<close> and its \<^verbatim>\<open>group(1)\<close>: the
  match starts at the first opening marker and, the group being non-greedy and the dot
  matching every character, ends at the first closing marker after it.
\<close>

definition search_python_block :: "string \<Rightarrow> string option" where
  "search_python_block code =
     (case find_sub python_fence code of
        None \<Rightarrow> None
      | Some (before, rest) \<Rightarrow>
          (case find_sub fence rest of
             None \<Rightarrow> None
           | Some (group1, after) \<Rightarrow> Some group1))"

definition extract_code :: "string \<Rightarrow> string option" where
  "extract_code code = map_option strip (search_python_block code)"

definition startswith :: "string \<Rightarrow> string \<Rightarrow> bool" where
  "startswith s pre = prefix pre s"

definition endswith :: "string \<Rightarrow> string \<Rightarrow> bool" where
  "endswith s suf = prefix (rev suf) (rev s)"

text \<open>\<^verbatim>\<open>os.path.join\<close> of two components on a POSIX system.\<close>

definition path_join :: "string \<Rightarrow> string \<Rightarrow> string" where
  "path_join a b =
     (if startswith b ''/'' then b
      else if a = [] \<or> endswith a ''/'' then a @ b
      else a @ ''/'' @ b)"

text \<open>
  \<^verbatim>\<open>xs.sort(key=k, reverse=True)\<close>: the keys are computed once for every element
  (an exception in one of them leaves the sort), and the order is descending and stable:
  the list is reversed, sorted stably in ascending order and reversed again.
\<close>

fun decorate :: "('a \<Rightarrow> py_exception + 'k) \<Rightarrow> 'a list \<Rightarrow> py_exception + ('k \<times> 'a) list" where
  "decorate key [] = Inr []"
| "decorate key (x # xs) =
     (case key x of
        Inl e \<Rightarrow> Inl e
      | Inr k \<Rightarrow> (case decorate key xs of Inl e \<Rightarrow> Inl e | Inr ps \<Rightarrow> Inr ((k, x) # ps)))"

definition sort_reverse ::
  "('a \<Rightarrow> py_exception + 'k::linorder) \<Rightarrow> 'a list \<Rightarrow> py_exception + 'a list" where
  "sort_reverse key xs =
     (case decorate key xs of
        Inl e \<Rightarrow> Inl e
      | Inr ps \<Rightarrow> Inr (map snd (rev (sort_key fst (rev ps)))))"

text \<open>
  The part of \<^verbatim>\<open>generate_manim_animation\<close> after a run with exit code 0. Every
  exception in it is caught by \<^verbatim>\<open>except Exception\<close> of the inner \<^verbatim>\<open>try\<close>, which
  returns \<^verbatim>\<open>None\<close>.
\<close>

definition find_video_file :: "environment \<Rightarrow> string option" where
  "find_video_file env =
     (case listdir env VIDEO_FOLDER of
        Inl e \<Rightarrow> None
      | Inr names \<Rightarrow>
          (let video_files =
                 filter (\<lambda>f. startswith f ''MainScene'' \<and> endswith f ''.mp4'') names
           in if video_files \<noteq> [] then
                (case sort_reverse (\<lambda>x. getmtime env (path_join VIDEO_FOLDER x)) video_files of
                   Inl e \<Rightarrow> None
                 | Inr [] \<Rightarrow> None
                 | Inr (video_filename # others) \<Rightarrow> Some (path_join VIDEO_FOLDER video_filename))
              else None))"

text \<open>The messages, the script file name and the command line of the renderer.\<close>

definition manim_request :: "string \<Rightarrow> string \<Rightarrow> chat_request" where
  "manim_request system_prompt prompt =
     \<lparr>system_message = system_prompt, user_message = prompt, json_object_format = False\<rparr>"

definition script_filename :: "environment \<Rightarrow> string" where
  "script_filename env = ''manim_animation_'' @ script_hex env @ ''.py''"

definition manim_command :: "string \<Rightarrow> string list" where
  "manim_command filename = [''manim'', ''-pql'', filename, ''MainScene'']"

text \<open>
  \<^verbatim>\<open>generate_manim_animation\<close>: the path of the rendered video, or \<^verbatim>\<open>None\<close>. All
  failures (the system prompt cannot be read, the model call raises or has no content,
  no code block, the script cannot be written, the tool is missing, times out or exits
  with a non-zero code, no video file) give the same \<^verbatim>\<open>None\<close>.
\<close>

definition generate_manim_animation :: "environment \<Rightarrow> string \<Rightarrow> string option" where
  "generate_manim_animation env prompt =
     (case read_file env ''fine_tuned_system_prompt.txt'' of
        Inl e \<Rightarrow> None
      | Inr system_prompt \<Rightarrow>
          (case chat_completion env (manim_request system_prompt prompt) of
             Inl e \<Rightarrow> None
           | Inr None \<Rightarrow> None
           | Inr (Some code) \<Rightarrow>
               (case extract_code code of
                  None \<Rightarrow> None
                | Some python_code \<Rightarrow>
                    (let filename = script_filename env
                     in case write_file env filename python_code of
                          Inl e \<Rightarrow> None
                        | Inr u \<Rightarrow>
                            (case run_process env (manim_command filename) of
                               Inl e \<Rightarrow> None
                             | Inr result \<Rightarrow>
                                 if returncode result = 0 then find_video_file env
                                 else None)))))"

text \<open>
  The stage failures of \<S>4.4 and \<S>7 of the specification, each described by what the
  environment answers to the calls of \<^verbatim>\<open>generate_manim_animation\<close> up to the stage
  that fails.
\<close>

datatype stage_failure =
    ModelError
  | NoCodeBlockFound
  | ToolMissing
  | RenderTimeout
  | RenderFailed
  | ArtifactNotProduced

inductive stage_fails :: "environment \<Rightarrow> string \<Rightarrow> stage_failure \<Rightarrow> bool"
  for env :: environment and prompt :: string where
  model_error:
    "read_file env ''fine_tuned_system_prompt.txt'' = Inr system_prompt \<Longrightarrow>
     chat_completion env (manim_request system_prompt prompt) = Inl e \<Longrightarrow>
     stage_fails env prompt ModelError"
| no_code_block:
    "read_file env ''fine_tuned_system_prompt.txt'' = Inr system_prompt \<Longrightarrow>
     chat_completion env (manim_request system_prompt prompt) = Inr (Some code) \<Longrightarrow>
     extract_code code = None \<Longrightarrow>
     stage_fails env prompt NoCodeBlockFound"
| tool_missing:
    "read_file env ''fine_tuned_system_prompt.txt'' = Inr system_prompt \<Longrightarrow>
     chat_completion env (manim_request system_prompt prompt) = Inr (Some code) \<Longrightarrow>
     extract_code code = Some python_code \<Longrightarrow>
     write_file env (script_filename env) python_code = Inr () \<Longrightarrow>
     run_process env (manim_command (script_filename env)) = Inl FileNotFoundError \<Longrightarrow>
     stage_fails env prompt ToolMissing"
| render_timeout:
    "read_file env ''fine_tuned_system_prompt.txt'' = Inr system_prompt \<Longrightarrow>
     chat_completion env (manim_request system_prompt prompt) = Inr (Some code) \<Longrightarrow>
     extract_code code = Some python_code \<Longrightarrow>
     write_file env (script_filename env) python_code = Inr () \<Longrightarrow>
     run_process env (manim_command (script_filename env)) = Inl TimeoutExpired \<Longrightarrow>
     stage_fails env prompt RenderTimeout"
| render_failed:
    "read_file env ''fine_tuned_system_prompt.txt'' = Inr system_prompt \<Longrightarrow>
     chat_completion env (manim_request system_prompt prompt) = Inr (Some code) \<Longrightarrow>
     extract_code code = Some python_code \<Longrightarrow>
     write_file env (script_filename env) python_code = Inr () \<Longrightarrow>
     run_process env (manim_command (script_filename env)) = Inr result \<Longrightarrow>
     returncode result \<noteq> 0 \<Longrightarrow>
     stage_fails env prompt RenderFailed"
| artifact_not_produced:
    "read_file env ''fine_tuned_system_prompt.txt'' = Inr system_prompt \<Longrightarrow>
     chat_completion env (manim_request system_prompt prompt) = Inr (Some code) \<Longrightarrow>
     extract_code code = Some python_code \<Longrightarrow>
     write_file env (script_filename env) python_code = Inr () \<Longrightarrow>
     run_process env (manim_command (script_filename env)) = Inr result \<Longrightarrow>
     returncode result = 0 \<Longrightarrow>
     listdir env VIDEO_FOLDER = Inr names \<Longrightarrow>
     filter (\<lambda>f. startswith f ''MainScene'' \<and> endswith f ''.mp4'') names = [] \<Longrightarrow>
     stage_fails env prompt ArtifactNotProduced"

code_pred stage_fails .

section \<open>Quiz synthesizer and summarizer\<close>

definition quiz_system_prompt :: string where
  "quiz_system_prompt =
     ''You are an expert quiz creator for educational content. Based on the provided transcript, ''
     @ [CHR 0x0A] @
     ''        generate a JSON object representing a quiz. The quiz must have exactly 4 multiple-choice questions. ''
     @ [CHR 0x0A] @
     ''        Each question object inside the 'questions' array must have the following properties: ''
     @ [CHR 0x0A] @
     ''        'id' (a unique number), 'text' (the question string), 'options' (an array of 4 unique strings: ''
     @ [CHR 0x0A] @
     ''        one correct answer and three plausible distractors), and 'answer' (the string of the correct answer, ''
     @ [CHR 0x0A] @
     ''        which must also be present in the 'options' array). Do not output any text, markdown, or code outside of the single JSON object.''"

text \<open>\<^verbatim>\<open>d[k] = v\<close> with a string key: only a dict accepts it.\<close>

fun setitem :: "json \<Rightarrow> string \<Rightarrow> json \<Rightarrow> py_exception + json" where
  "setitem (JObj m) k v = Inr (JObj (AList.update k v m))"
| "setitem _ k v = Inl TypeError"

definition fallback_quiz :: "environment \<Rightarrow> string \<Rightarrow> json" where
  "fallback_quiz env video_id =
     JObj [(''quiz_id'', JStr (generate_quiz_id env)), (''video_id'', JStr video_id),
           (''questions'', JArr [])]"

text \<open>
  \<^verbatim>\<open>generate_quiz_with_gemini\<close>. \<^verbatim>\<open>json.loads(None)\<close> raises \<^verbatim>\<open>TypeError\<close>; every
  exception of the \<^verbatim>\<open>try\<close> block ends in the fallback quiz.
\<close>

definition quiz_request :: "string \<Rightarrow> chat_request" where
  "quiz_request caption_content =
     (let user_query =
            ''Here is the transcript:'' @ [CHR 0x0A, CHR 0x0A] @ ''---'' @ [CHR 0x0A]
            @ caption_content @ [CHR 0x0A] @ ''---''
      in \<lparr>system_message = quiz_system_prompt, user_message = user_query,
          json_object_format = True\<rparr>)"

definition generate_quiz_with_gemini :: "environment \<Rightarrow> string \<Rightarrow> string \<Rightarrow> json" where
  "generate_quiz_with_gemini env caption_content video_id =
     (case chat_completion env (quiz_request caption_content) of
           Inl e \<Rightarrow> fallback_quiz env video_id
         | Inr None \<Rightarrow> fallback_quiz env video_id
         | Inr (Some content) \<Rightarrow>
             (case json_loads env content of
                Inl e \<Rightarrow> fallback_quiz env video_id
              | Inr quiz_data \<Rightarrow>
                  (case setitem quiz_data ''quiz_id'' (JStr (generate_quiz_id env)) of
                     Inl e \<Rightarrow> fallback_quiz env video_id
                   | Inr quiz_data1 \<Rightarrow>
                       (case setitem quiz_data1 ''video_id'' (JStr video_id) of
                          Inl e \<Rightarrow> fallback_quiz env video_id
                        | Inr quiz_data2 \<Rightarrow> quiz_data2))))"

definition summary_system_prompt :: string where
  "summary_system_prompt =
     ''You are an expert at summarizing educational content. Provide 3-4 key bullet points summarizing the most important information from the following transcript. Use a '-' for each bullet point.''"

text \<open>
  \<^verbatim>\<open>summarize_transcript_with_gemini\<close>. \<^verbatim>\<open>content or "..."\<close> replaces a content
  that is \<^verbatim>\<open>None\<close> or the empty string.
\<close>

definition summary_request :: "string \<Rightarrow> chat_request" where
  "summary_request caption_content =
     (let user_query = ''Transcript:'' @ [CHR 0x0A, CHR 0x0A] @ caption_content
      in \<lparr>system_message = summary_system_prompt, user_message = user_query,
          json_object_format = False\<rparr>)"

definition summarize_transcript_with_gemini :: "environment \<Rightarrow> string \<Rightarrow> string" where
  "summarize_transcript_with_gemini env caption_content =
     (case chat_completion env (summary_request caption_content) of
           Inl e \<Rightarrow> ''Sorry, there was an error generating the summary.''
         | Inr None \<Rightarrow> ''Could not generate summary.''
         | Inr (Some content) \<Rightarrow>
             if content \<noteq> [] then content else ''Could not generate summary.'')"

section \<open>Video generation\<close>

record video =
  video_id :: string
  user_id :: json
  title :: string
  thumbnail_url :: string
  video_file_url :: string
  caption_content :: string
  topic_tags :: "string list"
  created_at :: string

text \<open>The two process-wide collections: the list of videos and the quizzes by video id.\<close>

record store =
  videos :: "video list"
  quizzes :: "(string \<times> json) list"

text \<open>\<^verbatim>\<open>title.replace(" ", "+")\<close>.\<close>

definition replace_space_plus :: "string \<Rightarrow> string" where
  "replace_space_plus s = map (\<lambda>c. if c = CHR '' '' then CHR ''+'' else c) s"

text \<open>
  A prompt that is truthy but not a string never reaches the end of the route:
  \<^verbatim>\<open>len(prompt)\<close> raises \<^verbatim>\<open>TypeError\<close> for a boolean or a number; a list or dict
  longer than 30 fails in \<^verbatim>\<open>prompt[:30] + '...'\<close> (for a dict the slice is an
  unhashable key up to Python 3.11 and a missing key from 3.12 on; the model keeps the
  former), and a shorter one in \<^verbatim>\<open>title.replace\<close>, which only strings have. Nothing
  is stored before that point.
\<close>

fun non_string_prompt_error :: "json \<Rightarrow> py_exception" where
  "non_string_prompt_error (JArr xs) = (if length xs > 30 then TypeError else AttributeError)"
| "non_string_prompt_error (JObj m) = (if length m > 30 then TypeError else AttributeError)"
| "non_string_prompt_error _ = TypeError"

text \<open>The route \<^verbatim>\<open>generate_video\<close> on the JSON object of the request.\<close>

definition generate_video ::
  "environment \<Rightarrow> store \<Rightarrow> (string \<times> json) list \<Rightarrow> (video \<times> json) response \<times> store" where
  "generate_video env st data =
     (let prompt = dict_get data ''prompt''; user_id = dict_get data ''user_id''
      in if \<not> truthy prompt \<or> \<not> truthy user_id then (Status400, st)
         else
           (case prompt of
              JStr p \<Rightarrow>
                (let video_id = generate_video_id env;
                     title = (if length p > 30 then take 30 p @ ''...'' else p);
                     caption_content =
                       ''This is a generated video about '' @ p
                       @ ''. The video explains the key concepts and provides detailed information on the topic.'';
                     video_file_path = generate_manim_animation env p;
                     video_file_url =
                       (case video_file_path of
                          None \<Rightarrow> ''mock_video.mp4''
                        | Some path \<Rightarrow> if path = [] then ''mock_video.mp4'' else path);
                     new_video =
                       \<lparr>video_id = video_id, user_id = user_id, title = title,
                        thumbnail_url =
                          ''https://placehold.co/600x400/1a202c/ffffff?text=''
                          @ replace_space_plus title,
                        video_file_url = video_file_url,
                        caption_content = caption_content,
                        topic_tags = filter (\<lambda>tag. length tag > 3) (split (lower p)),
                        created_at = now_isoformat env\<rparr>;
                     quiz = generate_quiz_with_gemini env caption_content video_id
                 in (Status200 (new_video, quiz),
                     \<lparr>videos = videos st @ [new_video],
                      quizzes = AList.update video_id quiz (quizzes st)\<rparr>))
            | _ \<Rightarrow> (Raised (non_string_prompt_error prompt), st)))"

section \<open>Example inputs\<close>

text \<open>Concrete quizzes, answer maps and environments on which the results below are run.\<close>

text \<open>An environment in which nothing outside the process can be reached.\<close>

definition offline_env :: environment where
  "offline_env =
     \<lparr>read_file = (\<lambda>path. Inl FileNotFoundError),
      write_file = (\<lambda>path text. Inr ()),
      chat_completion = (\<lambda>request. Inl OtherException),
      run_process = (\<lambda>argv. Inl FileNotFoundError),
      listdir = (\<lambda>dir. Inr []),
      getmtime = (\<lambda>path. Inl FileNotFoundError),
      json_loads = (\<lambda>text. Inl JSONDecodeError),
      video_hex = ''0a1b2c3d'',
      script_hex = ''4e5f6a7b'',
      quiz_hex = ''8c9d0e1f'',
      now_isoformat = ''2024-05-01T12:00:00''\<rparr>"

text \<open>A model reply with two fenced blocks.\<close>

definition reply_intro :: string where
  "reply_intro = ''Here is the scene:'' @ [CHR 0x0A]"

definition first_block :: string where
  "first_block = [CHR 0x0A] @ ''class MainScene(Scene): pass'' @ [CHR 0x0A]"

definition reply_rest :: string where
  "reply_rest =
     [CHR 0x0A] @ ''and a variant:'' @ [CHR 0x0A] @ ''```python'' @ [CHR 0x0A]
     @ ''class Other(Scene): pass'' @ [CHR 0x0A] @ ''```''"

definition fenced_reply :: string where
  "fenced_reply = reply_intro @ python_fence @ first_block @ fence @ reply_rest"

text \<open>The model answers with code, but \<^verbatim>\<open>manim\<close> is not installed.\<close>

definition no_tool_env :: environment where
  "no_tool_env =
     offline_env
       \<lparr>read_file := (\<lambda>path. Inr ''Write Manim code.''),
        chat_completion := (\<lambda>request. Inr (Some fenced_reply))\<rparr>"

text \<open>
  The render succeeds and the video folder holds two matching files, the second one
  newer, next to two files that do not match.
\<close>

definition rendered_env :: environment where
  "rendered_env =
     no_tool_env
       \<lparr>run_process := (\<lambda>argv. Inr \<lparr>returncode = 0, stderr = []\<rparr>),
        listdir :=
          (\<lambda>dir. Inr [''MainScene_old.mp4'', ''Intro.mp4'', ''MainScene.mp4'', ''MainScene.py'']),
        getmtime :=
          (\<lambda>path. if path = ''media/videos/MainScene.mp4'' then Inr 200 else Inr 100)\<rparr>"

text \<open>
  The render succeeds and both matching files are listed, but the older one is gone
  when its modification time is read.
\<close>

definition unreadable_env :: environment where
  "unreadable_env =
     rendered_env
       \<lparr>getmtime :=
          (\<lambda>path. if path = ''media/videos/MainScene.mp4'' then Inr 200
                   else Inl FileNotFoundError)\<rparr>"

text \<open>The render succeeds but leaves no matching file.\<close>

definition no_artifact_env :: environment where
  "no_artifact_env = rendered_env \<lparr>listdir := (\<lambda>dir. Inr [''Intro.mp4'', ''MainScene.py''])\<rparr>"

text \<open>The model answers the summary request with an empty text, and with two bullets.\<close>

definition empty_reply_env :: environment where
  "empty_reply_env = offline_env \<lparr>chat_completion := (\<lambda>request. Inr (Some []))\<rparr>"

definition bullets_env :: environment where
  "bullets_env =
     offline_env
       \<lparr>chat_completion := (\<lambda>request. Inr (Some (''- black holes'' @ [CHR 0x0A] @ ''- gravity'')))\<rparr>"

text \<open>
  The model answers the quiz request with valid JSON that has three questions, and
  with four questions of which the last has three options, two of them equal, and an
  answer that is none of them.
\<close>

definition three_question_reply :: string where
  \<open>three_question_reply =
     ''{"questions": [{"id": 1, "text": "2+2?", "options": ["3", "4", "5", "6"], "answer": "4"}, ''
     @ ''{"id": 2, "text": "3+3?", "options": ["5", "6", "7", "8"], "answer": "6"}, ''
     @ ''{"id": 3, "text": "4+4?", "options": ["7", "8", "9", "10"], "answer": "8"}]}''\<close>

definition three_questions :: "json list" where
  "three_questions =
     [JObj [(''id'', JInt 1), (''text'', JStr ''2+2?''),
            (''options'', JArr [JStr ''3'', JStr ''4'', JStr ''5'', JStr ''6'']),
            (''answer'', JStr ''4'')],
      JObj [(''id'', JInt 2), (''text'', JStr ''3+3?''),
            (''options'', JArr [JStr ''5'', JStr ''6'', JStr ''7'', JStr ''8'']),
            (''answer'', JStr ''6'')],
      JObj [(''id'', JInt 3), (''text'', JStr ''4+4?''),
            (''options'', JArr [JStr ''7'', JStr ''8'', JStr ''9'', JStr ''10'']),
            (''answer'', JStr ''8'')]]"

definition three_question_env :: environment where
  "three_question_env =
     offline_env
       \<lparr>chat_completion := (\<lambda>request. Inr (Some three_question_reply)),
        json_loads :=
          (\<lambda>text. if text = three_question_reply
                   then Inr (JObj [(''questions'', JArr three_questions)])
                   else Inl JSONDecodeError)\<rparr>"

definition bad_question_reply :: string where
  \<open>bad_question_reply =
     ''{"questions": [{"id": 1, "text": "2+2?", "options": ["3", "4", "5", "6"], "answer": "4"}, ''
     @ ''{"id": 2, "text": "3+3?", "options": ["5", "6", "7", "8"], "answer": "6"}, ''
     @ ''{"id": 3, "text": "4+4?", "options": ["7", "8", "9", "10"], "answer": "8"}, ''
     @ ''{"id": 4, "text": "3+4?", "options": ["7", "7", "8"], "answer": "9"}]}''\<close>

definition bad_question :: json where
  "bad_question =
     JObj [(''id'', JInt 4), (''text'', JStr ''3+4?''),
           (''options'', JArr [JStr ''7'', JStr ''7'', JStr ''8'']),
           (''answer'', JStr ''9'')]"

definition bad_question_env :: environment where
  "bad_question_env =
     offline_env
       \<lparr>chat_completion := (\<lambda>request. Inr (Some bad_question_reply)),
        json_loads :=
          (\<lambda>text. if text = bad_question_reply
                   then Inr (JObj [(''questions'', JArr (three_questions @ [bad_question]))])
                   else Inl JSONDecodeError)\<rparr>"

text \<open>Requests to \<^verbatim>\<open>generate_video\<close>, and a store that already holds a quiz.\<close>

definition black_holes_request :: "(string \<times> json) list" where
  "black_holes_request =
     [(''prompt'', JStr ''explain how black holes form''), (''user_id'', JStr ''u1'')]"

definition empty_prompt_request :: "(string \<times> json) list" where
  "empty_prompt_request = [(''prompt'', JStr []), (''user_id'', JStr ''u1'')]"

definition no_user_request :: "(string \<times> json) list" where
  "no_user_request = [(''prompt'', JStr ''explain how black holes form'')]"

text \<open>A prompt of 42 characters with capital letters.\<close>

definition long_prompt_request :: "(string \<times> json) list" where
  "long_prompt_request =
     [(''prompt'', JStr ''Explain How BLACK Holes form in deep space''),
      (''user_id'', JStr ''u1'')]"

definition empty_store :: store where
  "empty_store = \<lparr>videos = [], quizzes = []\<rparr>"

definition make_question :: "int \<Rightarrow> string \<Rightarrow> string list \<Rightarrow> string \<Rightarrow> json" where
  "make_question i t opts a =
     JObj [(''id'', JInt i), (''text'', JStr t), (''options'', JArr (map JStr opts)),
           (''answer'', JStr a)]"

definition capitals_questions :: "json list" where
  "capitals_questions =
     [make_question 1 ''Capital of France?'' [''Paris'', ''Lyon'', ''Nice'', ''Lille''] ''Paris'',
      make_question 2 ''Capital of Germany?'' [''Bonn'', ''Berlin'', ''Munich'', ''Hamburg''] ''Berlin'',
      make_question 3 ''Capital of Italy?'' [''Milan'', ''Turin'', ''Rome'', ''Naples''] ''Rome'',
      make_question 4 ''Capital of Spain?'' [''Madrid'', ''Seville'', ''Bilbao'', ''Valencia''] ''Madrid'']"

definition capitals_quiz :: json where
  "capitals_quiz =
     JObj [(''questions'', JArr capitals_questions), (''quiz_id'', JStr ''quiz_1a2b3c4d''),
           (''video_id'', JStr ''vid_9f8e7d6c'')]"

text \<open>Three right answers and a wrong one.\<close>

definition three_right :: "string \<rightharpoonup> string" where
  "three_right =
     map_of [(''1'', ''Paris''), (''2'', ''Berlin''), (''3'', ''Rome''), (''4'', ''Seville'')]"

text \<open>
  One right answer, one in the wrong case, none for question 3, and one with a
  trailing blank.
\<close>

definition sloppy_answers :: "string \<rightharpoonup> string" where
  "sloppy_answers = map_of [(''1'', ''Paris''), (''2'', ''berlin''), (''4'', ''Madrid '')]"

definition no_repr :: "json \<Rightarrow> string" where
  "no_repr v = []"

section \<open>Properties of the scorer\<close>

lemma well_formed_question_fields:
  assumes "well_formed_question q"
  shows "getitem q ''id'' = Inr (JInt (question_id q))"
    and "getitem q ''answer'' = Inr (JStr (question_answer q))"
proof -
  from assms obtain v where v: "getitem q ''id'' = Inr v" "is_int v"
    by (auto simp: well_formed_question_def field_is_def split: sum.splits)
  then obtain i where "v = JInt i" by (cases v) auto
  with v show "getitem q ''id'' = Inr (JInt (question_id q))"
    by (simp add: question_id_def)
  from assms obtain opts a where a: "getitem q ''answer'' = Inr a" "options_inv opts a"
    by (auto simp: well_formed_question_def question_inv_def split: sum.splits)
  then obtain s where "a = JStr s" by (cases opts; cases a) auto
  with a show "getitem q ''answer'' = Inr (JStr (question_answer q))"
    by (simp add: question_answer_def)
qed

lemma count_correct_well_formed:
  "list_all well_formed_question qs \<Longrightarrow>
   count_correct repr answers n qs = Inr (n + length (filter (answered_correctly answers) qs))"
proof (induction qs arbitrary: n)
  case Nil
  then show ?case by simp
next
  case (Cons q qs)
  then have wf: "well_formed_question q" and rest: "list_all well_formed_question qs"
    by simp_all
  have m: "answer_matches (answers (py_str repr (JInt (question_id q)))) (JStr (question_answer q))
           = answered_correctly answers q"
    by (auto simp: answer_matches_def answered_correctly_def split: option.splits)
  show ?case
    using Cons.IH [OF rest] m
    by (simp add: well_formed_question_fields [OF wf])
qed

lemma well_formed_quiz_questions:
  assumes "well_formed_quiz quiz"
  shows "getitem quiz ''questions'' = Inr (JArr (quiz_questions quiz))"
    and "list_all well_formed_question (quiz_questions quiz)"
proof -
  from assms obtain v where v: "getitem quiz ''questions'' = Inr v" "questions_inv v"
    by (auto simp: well_formed_quiz_def field_is_def split: sum.splits)
  then obtain qs where qs: "v = JArr qs" by (cases v) auto
  with v show "getitem quiz ''questions'' = Inr (JArr (quiz_questions quiz))"
    by (simp add: quiz_questions_def)
  from v qs show "list_all well_formed_question (quiz_questions quiz)"
    by (simp add: quiz_questions_def)
qed

lemma round_double_three_quarters: "round_double (3 / 4) = 3 / 4"
  by code_simp

lemma round_double_75: "round_double 75 = 75"
  by code_simp

text \<open>
  Where the quotient is not a double the two roundings show: Python prints
  \<^verbatim>\<open>57 / 100 * 100\<close> as \<^verbatim>\<open>56.99999999999999\<close>, the double below.
\<close>

lemma round_double_57_percent:
  "round_double (round_double (57 / 100) * 100) = 8022036836253695 / 140737488355328"
  by code_simp

lemma well_formed_capitals_quiz: "well_formed_quiz capitals_quiz"
  by code_simp

lemma capitals_quiz_questions: "quiz_questions capitals_quiz = capitals_questions"
  by (simp add: quiz_questions_def capitals_quiz_def)

text \<open>
  C6. A quiz with four questions of which the submitted answers match exactly three
  scores correct 3, total 4, percentage 75.0 and passes; a quiz whose question list is
  empty scores total 0, percentage 0 and does not pass, without a division error.
\<close>

theorem score_three_of_four_and_empty:
  "(well_formed_quiz quiz \<and> length (quiz_questions quiz) = 4
      \<and> length (filter (answered_correctly answers) (quiz_questions quiz)) = 3
    \<longrightarrow> score_quiz repr quiz answers =
          Inr \<lparr>correct = 3, total = 4, percentage = PyFloat 75, passed = True\<rparr>)
   \<and> (getitem quiz ''questions'' = Inr (JArr [])
    \<longrightarrow> score_quiz repr quiz answers =
          Inr \<lparr>correct = 0, total = 0, percentage = PyInt 0, passed = False\<rparr>)"
proof (intro conjI impI)
  assume h: "well_formed_quiz quiz \<and> length (quiz_questions quiz) = 4
      \<and> length (filter (answered_correctly answers) (quiz_questions quiz)) = 3"
  then have wf: "well_formed_quiz quiz" by simp
  show "score_quiz repr quiz answers =
          Inr \<lparr>correct = 3, total = 4, percentage = PyFloat 75, passed = True\<rparr>"
    using well_formed_quiz_questions [OF wf] h
    by (simp add: score_quiz_def count_correct_well_formed Let_def
        round_double_three_quarters round_double_75)
next
  assume "getitem quiz ''questions'' = Inr (JArr [])"
  then show "score_quiz repr quiz answers =
          Inr \<lparr>correct = 0, total = 0, percentage = PyInt 0, passed = False\<rparr>"
    by (simp add: score_quiz_def)
qed

theorem score_three_of_four_and_empty_witness:
  "well_formed_quiz capitals_quiz \<and> length (quiz_questions capitals_quiz) = 4
   \<and> length (filter (answered_correctly three_right) (quiz_questions capitals_quiz)) = 3
   \<and> score_quiz no_repr capitals_quiz three_right =
       Inr \<lparr>correct = 3, total = 4, percentage = PyFloat 75, passed = True\<rparr>
   \<and> getitem (fallback_quiz offline_env ''vid_9f8e7d6c'') ''questions'' = Inr (JArr [])
   \<and> score_quiz no_repr (fallback_quiz offline_env ''vid_9f8e7d6c'') three_right =
       Inr \<lparr>correct = 0, total = 0, percentage = PyInt 0, passed = False\<rparr>"
proof -
  have a: "length (quiz_questions capitals_quiz) = 4"
    by (simp add: capitals_quiz_questions capitals_questions_def)
  have b: "length (filter (answered_correctly three_right) (quiz_questions capitals_quiz)) = 3"
    unfolding capitals_quiz_questions by code_simp
  have c: "getitem (fallback_quiz offline_env ''vid_9f8e7d6c'') ''questions'' = Inr (JArr [])"
    by (simp add: fallback_quiz_def)
  show ?thesis
    using score_three_of_four_and_empty
      [of capitals_quiz three_right no_repr] 
      score_three_of_four_and_empty
      [of "fallback_quiz offline_env ''vid_9f8e7d6c''" three_right no_repr]
      well_formed_capitals_quiz a b c
    by simp
qed

text \<open>
  C7. Scoring a well-formed quiz never raises, whatever the answers map: it returns a
  result whose total is the number of questions and whose correct count is the number
  of questions for which the map has an entry under the question's id that equals the
  question's answer string character by character. A question without an entry is
  therefore not counted.
\<close>

theorem score_quiz_well_formed:
  assumes "well_formed_quiz quiz"
  shows "\<exists>r. score_quiz repr quiz answers = Inr r
           \<and> correct r = length (filter (answered_correctly answers) (quiz_questions quiz))
           \<and> total r = length (quiz_questions quiz)
           \<and> (\<forall>q \<in> set (quiz_questions quiz).
                 answers (str_int (question_id q)) = None \<longrightarrow> \<not> answered_correctly answers q)"
  using well_formed_quiz_questions [OF assms]
  by (simp add: score_quiz_def count_correct_well_formed Let_def answered_correctly_def)

theorem score_quiz_well_formed_witness:
  "well_formed_quiz capitals_quiz
   \<and> (\<exists>r. score_quiz no_repr capitals_quiz sloppy_answers = Inr r
          \<and> correct r = 1 \<and> total r = 4)"
proof -
  have n: "length (filter (answered_correctly sloppy_answers) (quiz_questions capitals_quiz)) = 1"
    unfolding capitals_quiz_questions by code_simp
  have t: "length (quiz_questions capitals_quiz) = 4"
    by (simp add: capitals_quiz_questions capitals_questions_def)
  show ?thesis
    using score_quiz_well_formed [OF well_formed_capitals_quiz, of no_repr sloppy_answers] n t
      well_formed_capitals_quiz
    by auto
qed

text \<open>The route answers 200 with that score once the quiz is found in the store.\<close>

lemma submit_quiz_well_formed:
  assumes "find_quiz (map snd stored) quiz_id = Inr (Some quiz)" and "well_formed_quiz quiz"
  shows "\<exists>r. submit_quiz repr stored quiz_id answers = Status200 r
           \<and> score_quiz repr quiz answers = Inr r"
proof -
  from assms(2) obtain v where "getitem quiz ''quiz_id'' = Inr v"
    by (auto simp: well_formed_quiz_def field_is_def split: sum.splits)
  then have t: "truthy quiz" by (cases quiz) auto
  from well_formed_quiz_questions [OF assms(2)]
  obtain r where "score_quiz repr quiz answers = Inr r"
    by (simp add: score_quiz_def count_correct_well_formed Let_def)
  with assms(1) t show ?thesis by (simp add: submit_quiz_def)
qed

section \<open>Properties of the string functions\<close>

lemma isspace_lower_char: "isspace (lower_char c) = isspace c"
proof (cases "isupper c")
  case False
  then show ?thesis by (simp add: lower_char_def)
next
  case True
  then have "(of_char c :: nat) + 32 < 256"
    by (auto simp: isupper_def Let_def)
  then have r: "of_char (char_of (of_char c + (32::nat))) = (of_char c + 32 :: nat)"
    by simp
  from True have "\<not> isspace c" by (auto simp: isupper_def isspace_def Let_def)
  moreover from True r have "\<not> isspace (lower_char c)"
    by (auto simp: lower_char_def isupper_def isspace_def Let_def)
  ultimately show ?thesis by simp
qed

lemma split_lower: "split (lower s) = map lower (split s)"
proof (induction s rule: split.induct)
  case 1
  then show ?case by (simp add: lower_def)
next
  case (2 c cs)
  have tw: "takeWhile (\<lambda>x. \<not> isspace x) (map lower_char xs)
            = map lower_char (takeWhile (\<lambda>x. \<not> isspace x) xs)" for xs
    by (simp add: takeWhile_map comp_def isspace_lower_char)
  have dw: "dropWhile (\<lambda>x. \<not> isspace x) (map lower_char xs)
            = map lower_char (dropWhile (\<lambda>x. \<not> isspace x) xs)" for xs
    by (simp add: dropWhile_map comp_def isspace_lower_char)
  show ?case
  proof (cases "isspace c")
    case True
    with 2 show ?thesis by (simp add: lower_def isspace_lower_char)
  next
    case False
    with 2 show ?thesis
      using tw [of cs] dw [of cs] by (simp add: lower_def isspace_lower_char)
  qed
qed

section \<open>Properties of video generation\<close>

lemma stage_fails_None:
  "stage_fails env prompt failure \<Longrightarrow> generate_manim_animation env prompt = None"
  by (induction rule: stage_fails.induct)
     (simp_all add: generate_manim_animation_def find_video_file_def)

lemma generate_video_string_prompt:
  assumes "dict_get data ''prompt'' = JStr p" "p \<noteq> []" "truthy (dict_get data ''user_id'')"
  shows "\<exists>v q st'. generate_video env st data = (Status200 (v, q), st')
           \<and> title v = (if length p > 30 then take 30 p @ ''...'' else p)
           \<and> topic_tags v = filter (\<lambda>tag. length tag > 3) (split (lower p))
           \<and> video_file_url v =
               (case generate_manim_animation env p of
                  None \<Rightarrow> ''mock_video.mp4''
                | Some path \<Rightarrow> if path = [] then ''mock_video.mp4'' else path)"
  using assms by (simp add: generate_video_def Let_def)

text \<open>
  C3 as stated fails: a request in which both fields are present, the prompt being the
  empty string, is answered with 400 and no video.
\<close>

theorem present_empty_prompt_counterexample:
  "map_of empty_prompt_request ''prompt'' = Some (JStr [])
   \<and> map_of empty_prompt_request ''user_id'' = Some (JStr ''u1'')
   \<and> generate_video offline_env empty_store empty_prompt_request = (Status400, empty_store)"
  by (simp add: empty_prompt_request_def generate_video_def dict_get_def)

text \<open>
  C3, amended. For a request whose prompt is a non-empty string and whose user id is
  truthy (the guard of the route), \<^verbatim>\<open>generate_video\<close> answers 200 with a video
  whose title has at most 33 characters, is the prompt itself when the prompt has at
  most 30 and its first 30 characters followed by three dots otherwise, and whose topic
  tags are the tokens of the prompt between whitespace, lower-cased, longer than 3
  characters, in the order of the prompt.
\<close>

theorem generate_video_title_and_tags:
  assumes "dict_get data ''prompt'' = JStr p" and "p \<noteq> []"
    and "truthy (dict_get data ''user_id'')"
  shows "\<exists>v q st'. generate_video env st data = (Status200 (v, q), st')
           \<and> length (title v) \<le> 33
           \<and> (length p \<le> 30 \<longrightarrow> title v = p)
           \<and> (length p > 30 \<longrightarrow> title v = take 30 p @ ''...'')
           \<and> topic_tags v = filter (\<lambda>tag. length tag > 3) (map lower (split p))"
proof -
  from generate_video_string_prompt [OF assms, of env st]
  obtain v q st' where r: "generate_video env st data = (Status200 (v, q), st')"
    and t: "title v = (if length p > 30 then take 30 p @ ''...'' else p)"
    and g: "topic_tags v = filter (\<lambda>tag. length tag > 3) (split (lower p))"
    by blast
  from t have "length (title v) \<le> 33" by simp
  moreover from t have "length p \<le> 30 \<longrightarrow> title v = p" by simp
  moreover from t have "length p > 30 \<longrightarrow> title v = take 30 p @ ''...''" by simp
  moreover from g have "topic_tags v = filter (\<lambda>tag. length tag > 3) (map lower (split p))"
    by (simp add: split_lower)
  ultimately show ?thesis using r by blast
qed

lemma black_holes_tags:
  "filter (\<lambda>tag. length tag > 3) (map lower (split ''explain how black holes form''))
     = [''explain'', ''black'', ''holes'', ''form'']"
  by code_simp

lemma long_prompt_tags:
  "filter (\<lambda>tag. length tag > 3)
     (map lower (split ''Explain How BLACK Holes form in deep space''))
     = [''explain'', ''black'', ''holes'', ''form'', ''deep'', ''space'']"
  by code_simp

text \<open>
  Witness of the amended C3: the end-to-end scenario of the specification, and a prompt
  of 42 characters with capital letters.
\<close>

theorem generate_video_title_and_tags_witness:
  "dict_get black_holes_request ''prompt'' = JStr ''explain how black holes form''
   \<and> ''explain how black holes form'' \<noteq> []
   \<and> truthy (dict_get black_holes_request ''user_id'')
   \<and> (\<exists>v q st'. generate_video offline_env empty_store black_holes_request
                    = (Status200 (v, q), st')
          \<and> title v = ''explain how black holes form''
          \<and> topic_tags v = [''explain'', ''black'', ''holes'', ''form''])
   \<and> dict_get long_prompt_request ''prompt''
       = JStr ''Explain How BLACK Holes form in deep space''
   \<and> truthy (dict_get long_prompt_request ''user_id'')
   \<and> (\<exists>v q st'. generate_video offline_env empty_store long_prompt_request
                    = (Status200 (v, q), st')
          \<and> title v = ''Explain How BLACK Holes form i...''
          \<and> length (title v) = 33
          \<and> topic_tags v = [''explain'', ''black'', ''holes'', ''form'', ''deep'', ''space''])"
proof -
  have a: "dict_get black_holes_request ''prompt'' = JStr ''explain how black holes form''"
    by (simp add: black_holes_request_def dict_get_def)
  have b: "''explain how black holes form'' \<noteq> []" by simp
  have c: "truthy (dict_get black_holes_request ''user_id'')"
    by (simp add: black_holes_request_def dict_get_def)
  from generate_video_title_and_tags [OF a b c, of offline_env empty_store]
  obtain v q st' where r: "generate_video offline_env empty_store black_holes_request
                             = (Status200 (v, q), st')"
    and t: "length ''explain how black holes form'' \<le> 30
              \<longrightarrow> title v = ''explain how black holes form''"
    and g: "topic_tags v = filter (\<lambda>tag. length tag > 3)
                             (map lower (split ''explain how black holes form''))"
    by blast
  from t have t': "title v = ''explain how black holes form''" by simp
  from g have g': "topic_tags v = [''explain'', ''black'', ''holes'', ''form'']"
    by (simp only: black_holes_tags)
  from r t' g' have first:
    "\<exists>v q st'. generate_video offline_env empty_store black_holes_request
                    = (Status200 (v, q), st')
          \<and> title v = ''explain how black holes form''
          \<and> topic_tags v = [''explain'', ''black'', ''holes'', ''form'']"
    by blast
  have a2: "dict_get long_prompt_request ''prompt''
              = JStr ''Explain How BLACK Holes form in deep space''"
    by (simp add: long_prompt_request_def dict_get_def)
  have b2: "''Explain How BLACK Holes form in deep space'' \<noteq> []" by simp
  have c2: "truthy (dict_get long_prompt_request ''user_id'')"
    by (simp add: long_prompt_request_def dict_get_def)
  from generate_video_title_and_tags [OF a2 b2 c2, of offline_env empty_store]
  obtain w q2 st2 where r2: "generate_video offline_env empty_store long_prompt_request
                             = (Status200 (w, q2), st2)"
    and t2: "length ''Explain How BLACK Holes form in deep space'' > 30
              \<longrightarrow> title w = take 30 ''Explain How BLACK Holes form in deep space'' @ ''...''"
    and g2: "topic_tags w = filter (\<lambda>tag. length tag > 3)
                             (map lower (split ''Explain How BLACK Holes form in deep space''))"
    by blast
  from t2 have t2': "title w = ''Explain How BLACK Holes form i...''" by simp
  then have l2: "length (title w) = 33" by simp
  from g2 have g2': "topic_tags w = [''explain'', ''black'', ''holes'', ''form'', ''deep'', ''space'']"
    by (simp only: long_prompt_tags)
  from r2 t2' l2 g2' have second:
    "\<exists>v q st'. generate_video offline_env empty_store long_prompt_request
                    = (Status200 (v, q), st')
          \<and> title v = ''Explain How BLACK Holes form i...''
          \<and> length (title v) = 33
          \<and> topic_tags v = [''explain'', ''black'', ''holes'', ''form'', ''deep'', ''space'']"
    by blast
  from a b c first a2 c2 second show ?thesis by blast
qed

text \<open>
  C4. Whenever a stage of the pipeline fails (model error, no code block, tool missing,
  timeout, non-zero exit code, no artifact), \<^verbatim>\<open>generate_video\<close> still answers
  200 with a video whose file reference is \<^verbatim>\<open>mock_video.mp4\<close>; no exception leaves
  the route.
\<close>

theorem generate_video_fallback:
  assumes "stage_fails env p failure"
    and "dict_get data ''prompt'' = JStr p" and "p \<noteq> []"
    and "truthy (dict_get data ''user_id'')"
  shows "\<exists>v q st'. generate_video env st data = (Status200 (v, q), st')
           \<and> video_file_url v = ''mock_video.mp4''"
  using generate_video_string_prompt [OF assms(2,3,4), of env st] stage_fails_None [OF assms(1)]
  by auto

lemma extract_fenced_reply: "extract_code fenced_reply = Some ''class MainScene(Scene): pass''"
  by code_simp

lemma no_tool_fails: "stage_fails no_tool_env ''explain how black holes form'' ToolMissing"
proof (rule tool_missing)
  show "read_file no_tool_env ''fine_tuned_system_prompt.txt'' = Inr ''Write Manim code.''"
    by (simp add: no_tool_env_def)
  show "chat_completion no_tool_env
          (manim_request ''Write Manim code.'' ''explain how black holes form'')
        = Inr (Some fenced_reply)"
    by (simp add: no_tool_env_def)
  show "extract_code fenced_reply = Some ''class MainScene(Scene): pass''"
    by (rule extract_fenced_reply)
  show "write_file no_tool_env (script_filename no_tool_env) ''class MainScene(Scene): pass''
        = Inr ()"
    by (simp add: no_tool_env_def offline_env_def)
  show "run_process no_tool_env (manim_command (script_filename no_tool_env))
        = Inl FileNotFoundError"
    by (simp add: no_tool_env_def offline_env_def)
qed

text \<open>Witness of C4: the rendering tool is not installed.\<close>

theorem generate_video_fallback_witness:
  "stage_fails no_tool_env ''explain how black holes form'' ToolMissing
   \<and> dict_get black_holes_request ''prompt'' = JStr ''explain how black holes form''
   \<and> ''explain how black holes form'' \<noteq> []
   \<and> truthy (dict_get black_holes_request ''user_id'')
   \<and> (\<exists>v q st'. generate_video no_tool_env empty_store black_holes_request
                    = (Status200 (v, q), st')
          \<and> video_file_url v = ''mock_video.mp4'')"
proof -
  have a: "dict_get black_holes_request ''prompt'' = JStr ''explain how black holes form''"
    by (simp add: black_holes_request_def dict_get_def)
  have b: "''explain how black holes form'' \<noteq> []" by simp
  have c: "truthy (dict_get black_holes_request ''user_id'')"
    by (simp add: black_holes_request_def dict_get_def)
  show ?thesis
    using generate_video_fallback [OF no_tool_fails a b c, of empty_store] no_tool_fails a b c
    by simp
qed

text \<open>
  C10. \<^verbatim>\<open>generate_video\<close> answers 400 and leaves the store as it was (no video
  appended, no quiz stored) when the prompt or the user id is absent, and also when
  either is present and is the empty string.
\<close>

theorem generate_video_rejects_missing_or_empty:
  assumes "map_of data ''prompt'' = None \<or> map_of data ''prompt'' = Some (JStr [])
           \<or> map_of data ''user_id'' = None \<or> map_of data ''user_id'' = Some (JStr [])"
  shows "generate_video env st data = (Status400, st)"
  using assms by (auto simp: generate_video_def dict_get_def Let_def)

text \<open>Witness of C10: an empty prompt, and a request without user id.\<close>

theorem generate_video_rejects_missing_or_empty_witness:
  "map_of empty_prompt_request ''prompt'' = Some (JStr [])
   \<and> generate_video offline_env empty_store empty_prompt_request = (Status400, empty_store)
   \<and> map_of no_user_request ''user_id'' = None
   \<and> generate_video offline_env empty_store no_user_request = (Status400, empty_store)"
proof -
  have a: "map_of empty_prompt_request ''prompt'' = Some (JStr [])"
    by (simp add: empty_prompt_request_def)
  have b: "map_of no_user_request ''user_id'' = None"
    by (simp add: no_user_request_def)
  show ?thesis
    using generate_video_rejects_missing_or_empty [of empty_prompt_request offline_env empty_store]
      generate_video_rejects_missing_or_empty [of no_user_request offline_env empty_store] a b
    by simp
qed

section \<open>Properties of the summarizer\<close>

text \<open>
  C9 as stated fails: when the model call succeeds with an empty response text, the
  summarizer does not return that text but a fixed message.
\<close>

theorem summarize_empty_reply_counterexample:
  "chat_completion empty_reply_env (summary_request ''narration'') = Inr (Some [])
   \<and> summarize_transcript_with_gemini empty_reply_env ''narration'' \<noteq> []"
  by (simp add: summarize_transcript_with_gemini_def empty_reply_env_def)

text \<open>
  C9, amended. The summarizer returns the model's response text verbatim when it is
  not empty; \<^verbatim>\<open>Could not generate summary.\<close> when the response text is empty or
  absent; and \<^verbatim>\<open>Sorry, there was an error generating the summary.\<close> when the
  model call raises. It is total: no exception reaches the caller.
\<close>

theorem summarize_outcomes:
  "(chat_completion env (summary_request caption) = Inr (Some content) \<and> content \<noteq> []
      \<longrightarrow> summarize_transcript_with_gemini env caption = content)
   \<and> (chat_completion env (summary_request caption) = Inr (Some [])
        \<or> chat_completion env (summary_request caption) = Inr None
      \<longrightarrow> summarize_transcript_with_gemini env caption = ''Could not generate summary.'')
   \<and> (chat_completion env (summary_request caption) = Inl e
      \<longrightarrow> summarize_transcript_with_gemini env caption
            = ''Sorry, there was an error generating the summary.'')"
  by (auto simp: summarize_transcript_with_gemini_def)

text \<open>Witness of the amended C9, one environment for each of the three outcomes.\<close>

theorem summarize_outcomes_witness:
  "chat_completion bullets_env (summary_request ''narration'')
     = Inr (Some (''- black holes'' @ [CHR 0x0A] @ ''- gravity''))
   \<and> summarize_transcript_with_gemini bullets_env ''narration''
       = ''- black holes'' @ [CHR 0x0A] @ ''- gravity''
   \<and> chat_completion empty_reply_env (summary_request ''narration'') = Inr (Some [])
   \<and> summarize_transcript_with_gemini empty_reply_env ''narration''
       = ''Could not generate summary.''
   \<and> chat_completion offline_env (summary_request ''narration'') = Inl OtherException
   \<and> summarize_transcript_with_gemini offline_env ''narration''
       = ''Sorry, there was an error generating the summary.''"
proof -
  have a: "chat_completion bullets_env (summary_request ''narration'')
     = Inr (Some (''- black holes'' @ [CHR 0x0A] @ ''- gravity''))"
    by (simp add: bullets_env_def)
  have b: "chat_completion empty_reply_env (summary_request ''narration'') = Inr (Some [])"
    by (simp add: empty_reply_env_def)
  have c: "chat_completion offline_env (summary_request ''narration'') = Inl OtherException"
    by (simp add: offline_env_def)
  show ?thesis
    using summarize_outcomes [of bullets_env "''narration''"
        "''- black holes'' @ [CHR 0x0A] @ ''- gravity''" OtherException]
      summarize_outcomes [of empty_reply_env "''narration''" "[]" OtherException]
      summarize_outcomes [of offline_env "''narration''" "[]" OtherException]
      a b c
    by simp
qed

section \<open>Properties of the code extractor\<close>

lemma find_sub_None: "pat \<noteq> [] \<Longrightarrow> find_sub pat s = None \<longleftrightarrow> \<not> (\<exists>a b. s = a @ pat @ b)"
proof (induction s)
  case Nil
  then show ?case by simp
next
  case (Cons c cs)
  show ?case
  proof (cases "prefix pat (c # cs)")
    case True
    then obtain b where "c # cs = pat @ b" by (auto simp: prefix_def)
    then have "c # cs = [] @ pat @ b" by simp
    with True show ?thesis by (metis find_sub.simps(2) option.distinct(1))
  next
    case False
    have "(\<exists>a b. c # cs = a @ pat @ b) \<longleftrightarrow> (\<exists>a b. cs = a @ pat @ b)"
    proof
      assume "\<exists>a b. c # cs = a @ pat @ b"
      then obtain a b where ab: "c # cs = a @ pat @ b" by blast
      with False have "a \<noteq> []" by (auto simp: prefix_def)
      with ab show "\<exists>a b. cs = a @ pat @ b" by (cases a) auto
    next
      assume "\<exists>a b. cs = a @ pat @ b"
      then obtain a b where "cs = a @ pat @ b" by blast
      then have "c # cs = (c # a) @ pat @ b" by simp
      then show "\<exists>a b. c # cs = a @ pat @ b" by blast
    qed
    with False Cons show ?thesis by simp
  qed
qed

lemma find_sub_Some:
  "pat \<noteq> [] \<Longrightarrow>
   find_sub pat s = Some (a, b) \<longleftrightarrow>
     s = a @ pat @ b \<and> (\<forall>a' b'. s = a' @ pat @ b' \<longrightarrow> length a \<le> length a')"
proof (induction s arbitrary: a)
  case Nil
  then show ?case by simp
next
  case (Cons c cs)
  show ?case
  proof (cases "prefix pat (c # cs)")
    case True
    then obtain r where r: "c # cs = pat @ r" by (auto simp: prefix_def)
    then have d: "drop (length pat) (c # cs) = r" by (metis append_eq_conv_conj)
    have "(c # cs = a @ pat @ b \<and> (\<forall>a' b'. c # cs = a' @ pat @ b' \<longrightarrow> length a \<le> length a'))
          \<longleftrightarrow> a = [] \<and> b = r"
    proof
      assume h: "c # cs = a @ pat @ b \<and> (\<forall>a' b'. c # cs = a' @ pat @ b' \<longrightarrow> length a \<le> length a')"
      from r have "c # cs = [] @ pat @ r" by simp
      with h have "length a \<le> length ([]::string)" by blast
      then have "a = []" by simp
      with h r show "a = [] \<and> b = r" by simp
    next
      assume "a = [] \<and> b = r"
      with r show "c # cs = a @ pat @ b \<and> (\<forall>a' b'. c # cs = a' @ pat @ b' \<longrightarrow> length a \<le> length a')"
        by simp
    qed
    with True d show ?thesis by auto
  next
    case False
    have ne: "a' \<noteq> []" if "c # cs = a' @ pat @ b'" for a' b'
      using that False by (auto simp: prefix_def)
    show ?thesis
    proof
      assume "find_sub pat (c # cs) = Some (a, b)"
      with False obtain a1 where a1: "a = c # a1" "find_sub pat cs = Some (a1, b)"
        by (auto split: prod.splits)
      with Cons.IH [OF Cons.prems, of a1]
      have cs: "cs = a1 @ pat @ b" and mn: "\<forall>a' b'. cs = a' @ pat @ b' \<longrightarrow> length a1 \<le> length a'"
        by simp_all
      have "length a \<le> length a'" if h: "c # cs = a' @ pat @ b'" for a' b'
      proof -
        from ne [OF h] obtain a2 where a2: "a' = c # a2" using h by (cases a') auto
        with h have "cs = a2 @ pat @ b'" by simp
        with mn have "length a1 \<le> length a2" by blast
        with a1 a2 show ?thesis by simp
      qed
      with a1 cs show "c # cs = a @ pat @ b \<and> (\<forall>a' b'. c # cs = a' @ pat @ b' \<longrightarrow> length a \<le> length a')"
        by simp
    next
      assume h: "c # cs = a @ pat @ b \<and> (\<forall>a' b'. c # cs = a' @ pat @ b' \<longrightarrow> length a \<le> length a')"
      then obtain a1 where a1: "a = c # a1" using ne [of a b] by (cases a) auto
      with h have cs: "cs = a1 @ pat @ b" by simp
      have "length a1 \<le> length a'" if "cs = a' @ pat @ b'" for a' b'
      proof -
        from that have "c # cs = (c # a') @ pat @ b'" by simp
        with h have "length a \<le> length (c # a')" by blast
        with a1 show ?thesis by simp
      qed
      with cs Cons.IH [OF Cons.prems, of a1] have "find_sub pat cs = Some (a1, b)" by blast
      with False a1 show "find_sub pat (c # cs) = Some (a, b)" by simp
    qed
  qed
qed

lemma fence_nonempty: "fence \<noteq> []"
  by (simp add: fence_def)

lemma python_fence_nonempty: "python_fence \<noteq> []"
  by (simp add: python_fence_def)

lemma search_python_block_None:
  "search_python_block text = None
   \<longleftrightarrow> \<not> (\<exists>a b c. text = a @ python_fence @ b @ fence @ c)"
proof
  assume n: "search_python_block text = None"
  show "\<not> (\<exists>a b c. text = a @ python_fence @ b @ fence @ c)"
  proof
    assume "\<exists>a b c. text = a @ python_fence @ b @ fence @ c"
    then obtain a b c where t: "text = a @ python_fence @ b @ fence @ c" by blast
    then have "find_sub python_fence text \<noteq> None"
      using find_sub_None [OF python_fence_nonempty, of "text"] by blast
    then obtain a0 r0 where f: "find_sub python_fence text = Some (a0, r0)" by auto
    then have t0: "text = a0 @ python_fence @ r0"
      and mn: "\<forall>a' b'. text = a' @ python_fence @ b' \<longrightarrow> length a0 \<le> length a'"
      using find_sub_Some [OF python_fence_nonempty, of "text" a0 r0] by simp_all
    from mn t have le: "length a0 \<le> length a" by blast
    have "r0 = drop (length a0 + length python_fence) text" using t0 by simp
    also have "\<dots> = drop (length a0 + length python_fence) ((a @ python_fence) @ b @ fence @ c)"
      using t by simp
    also have "\<dots> = drop (length a0 + length python_fence) (a @ python_fence) @ b @ fence @ c"
      using le by simp
    finally have "r0 = (drop (length a0 + length python_fence) (a @ python_fence) @ b) @ fence @ c"
      by simp
    then have "find_sub fence r0 \<noteq> None"
      using find_sub_None [OF fence_nonempty, of r0] by blast
    with f n show False by (auto simp: search_python_block_def split: option.splits)
  qed
next
  assume n: "\<not> (\<exists>a b c. text = a @ python_fence @ b @ fence @ c)"
  show "search_python_block text = None"
  proof (rule ccontr)
    assume "search_python_block text \<noteq> None"
    then obtain a0 r0 b c where "find_sub python_fence text = Some (a0, r0)"
      and "find_sub fence r0 = Some (b, c)"
      by (auto simp: search_python_block_def split: option.splits)
    then have "text = a0 @ python_fence @ r0" and "r0 = b @ fence @ c"
      using find_sub_Some [OF python_fence_nonempty, of "text" a0 r0]
        find_sub_Some [OF fence_nonempty, of r0 b c] by simp_all
    then have "text = a0 @ python_fence @ b @ fence @ c" by simp
    with n show False by blast
  qed
qed

lemma search_python_block_first:
  assumes "text = a @ python_fence @ b @ fence @ c"
    and "\<forall>a' r. text = a' @ python_fence @ r \<longrightarrow> length a \<le> length a'"
    and "\<forall>b' r. b @ fence @ c = b' @ fence @ r \<longrightarrow> length b \<le> length b'"
  shows "search_python_block text = Some b"
proof -
  have "find_sub python_fence text = Some (a, b @ fence @ c)"
    using find_sub_Some [OF python_fence_nonempty, of "text" a "b @ fence @ c"] assms(1,2) by simp
  moreover have "find_sub fence (b @ fence @ c) = Some (b, c)"
    using find_sub_Some [OF fence_nonempty, of "b @ fence @ c" b c] assms(3) by simp
  ultimately show ?thesis by (simp add: search_python_block_def)
qed

text \<open>
  C5. On a text without a python-tagged fenced block, that is, a text that is not of
  the form \<open>a @ python_fence @ b @ fence @ c\<close>, the extractor finds nothing (the
  outcome the specification calls \<^verbatim>\<open>NoCodeBlockFound\<close>). On a text with one or more
  such blocks it returns the stripped inner text \<open>b\<close> of the first one only: the one
  whose opening marker is the leftmost in the text and whose closing marker is the
  first after it, whatever follows.
\<close>

theorem extract_code_first_block:
  "(extract_code text = None \<longleftrightarrow> \<not> (\<exists>a b c. text = a @ python_fence @ b @ fence @ c))
   \<and> (text = a @ python_fence @ b @ fence @ c
        \<and> (\<forall>a' r. text = a' @ python_fence @ r \<longrightarrow> length a \<le> length a')
        \<and> (\<forall>b' r. b @ fence @ c = b' @ fence @ r \<longrightarrow> length b \<le> length b')
      \<longrightarrow> extract_code text = Some (strip b))"
  using search_python_block_None [of "text"] search_python_block_first [of "text" a b c]
  by (simp add: extract_code_def)

lemma fenced_reply_first_fence:
  "find_sub python_fence fenced_reply = Some (reply_intro, first_block @ fence @ reply_rest)"
  by code_simp

lemma fenced_reply_closing_fence:
  "find_sub fence (first_block @ fence @ reply_rest) = Some (first_block, reply_rest)"
  by code_simp

text \<open>Witness of C5: a reply with two blocks, and a reply without any.\<close>

theorem extract_code_first_block_witness:
  "fenced_reply = reply_intro @ python_fence @ first_block @ fence @ reply_rest
   \<and> extract_code fenced_reply = Some (strip first_block)
   \<and> strip first_block = ''class MainScene(Scene): pass''
   \<and> extract_code ''MainScene = Scene()'' = None
   \<and> \<not> (\<exists>a b c. ''MainScene = Scene()'' = a @ python_fence @ b @ fence @ c)"
proof -
  have d: "fenced_reply = reply_intro @ python_fence @ first_block @ fence @ reply_rest"
    by (simp only: fenced_reply_def)
  have m1: "\<forall>a' r. fenced_reply = a' @ python_fence @ r \<longrightarrow> length reply_intro \<le> length a'"
    using fenced_reply_first_fence
      find_sub_Some [OF python_fence_nonempty, of fenced_reply reply_intro
        "first_block @ fence @ reply_rest"]
    by blast
  have m2: "\<forall>b' r. first_block @ fence @ reply_rest = b' @ fence @ r
              \<longrightarrow> length first_block \<le> length b'"
    using fenced_reply_closing_fence
      find_sub_Some [OF fence_nonempty, of "first_block @ fence @ reply_rest" first_block reply_rest]
    by blast
  have s: "strip first_block = ''class MainScene(Scene): pass''" by code_simp
  have n: "extract_code ''MainScene = Scene()'' = None" by code_simp
  from extract_code_first_block [of fenced_reply reply_intro first_block reply_rest] d m1 m2
  have e: "extract_code fenced_reply = Some (strip first_block)" by blast
  from extract_code_first_block [of "''MainScene = Scene()''"] n
  have "\<not> (\<exists>a b c. ''MainScene = Scene()'' = a @ python_fence @ b @ fence @ c)" by blast
  with d e s n show ?thesis by blast
qed

section \<open>Properties of the renderer\<close>

lemma decorate_Inr:
  "\<forall>x \<in> set xs. \<exists>k. key x = Inr k \<Longrightarrow>
   \<exists>ps. decorate key xs = Inr ps \<and> map snd ps = xs \<and> (\<forall>p \<in> set ps. key (snd p) = Inr (fst p))"
proof (induction xs)
  case Nil
  then show ?case by simp
next
  case (Cons x xs)
  then obtain k where k: "key x = Inr k" by auto
  from Cons obtain ps where ps: "decorate key xs = Inr ps" "map snd ps = xs"
    "\<forall>p \<in> set ps. key (snd p) = Inr (fst p)" by auto
  with k show ?case by simp
qed

lemma decorate_Inl:
  "\<exists>x \<in> set xs. \<exists>e. key x = Inl e \<Longrightarrow> \<exists>e. decorate key xs = Inl e"
proof (induction xs)
  case Nil
  then show ?case by simp
next
  case (Cons x xs)
  show ?case
  proof (cases "key x")
    case (Inl e)
    then show ?thesis by simp
  next
    case (Inr k)
    with Cons.prems have "\<exists>x \<in> set xs. \<exists>e. key x = Inl e" by auto
    from Cons.IH [OF this] obtain e where "decorate key xs = Inl e" by blast
    with Inr show ?thesis by simp
  qed
qed

lemma sort_reverse_head:
  assumes "xs \<noteq> []" and "\<forall>x \<in> set xs. \<exists>k. key x = Inr k"
  shows "\<exists>y ys k. sort_reverse key xs = Inr (y # ys) \<and> y \<in> set xs \<and> key y = Inr k
           \<and> (\<forall>x \<in> set xs. \<forall>k'. key x = Inr k' \<longrightarrow> k' \<le> k)"
proof -
  from decorate_Inr [OF assms(2)] obtain ps where ps: "decorate key xs = Inr ps"
    "map snd ps = xs" "\<forall>p \<in> set ps. key (snd p) = Inr (fst p)" by blast
  define zs where "zs = sort_key fst (rev ps)"
  have set_zs: "set zs = set ps" by (simp add: zs_def)
  from assms(1) ps(2) have "ps \<noteq> []" by auto
  then have "zs \<noteq> []" using set_zs by (metis set_empty)
  then obtain b l where bl: "zs = b @ [l]" by (cases zs rule: rev_cases) auto
  have "sorted (map fst zs)" by (simp add: zs_def)
  with bl have below: "\<forall>p \<in> set b. fst p \<le> fst l" by (simp add: sorted_append)
  have mx: "fst p \<le> fst l" if "p \<in> set zs" for p
    using that bl below by auto
  have lz: "l \<in> set ps" using bl set_zs by auto
  have res: "sort_reverse key xs = Inr (snd l # map snd (rev b))"
    using ps(1) bl by (simp add: sort_reverse_def zs_def)
  have in_xs: "snd l \<in> set xs" using lz ps(2) by force
  have key_last: "key (snd l) = Inr (fst l)" using lz ps(3) by blast
  have "k' \<le> fst l" if "x \<in> set xs" "key x = Inr k'" for x k'
  proof -
    from that(1) ps(2) obtain p where p: "p \<in> set ps" "snd p = x" by force
    with ps(3) that(2) have "fst p = k'" by force
    with mx [of p] p(1) set_zs show ?thesis by simp
  qed
  with res in_xs key_last show ?thesis by blast
qed

lemma find_video_file_scan:
  assumes "listdir env VIDEO_FOLDER = Inr names"
  shows "(filter (\<lambda>f. startswith f ''MainScene'' \<and> endswith f ''.mp4'') names = []
            \<longrightarrow> find_video_file env = None)
       \<and> (filter (\<lambda>f. startswith f ''MainScene'' \<and> endswith f ''.mp4'') names \<noteq> []
            \<and> (\<forall>f \<in> set (filter (\<lambda>f. startswith f ''MainScene'' \<and> endswith f ''.mp4'') names).
                  \<exists>t. getmtime env (path_join VIDEO_FOLDER f) = Inr t)
          \<longrightarrow> (\<exists>f t. f \<in> set names \<and> startswith f ''MainScene'' \<and> endswith f ''.mp4''
                  \<and> getmtime env (path_join VIDEO_FOLDER f) = Inr t
                  \<and> (\<forall>g \<in> set names. \<forall>t'.
                        startswith g ''MainScene'' \<and> endswith g ''.mp4''
                        \<and> getmtime env (path_join VIDEO_FOLDER g) = Inr t' \<longrightarrow> t' \<le> t)
                  \<and> find_video_file env = Some (path_join VIDEO_FOLDER f)))
       \<and> ((\<exists>f \<in> set (filter (\<lambda>f. startswith f ''MainScene'' \<and> endswith f ''.mp4'') names).
              \<exists>e. getmtime env (path_join VIDEO_FOLDER f) = Inl e)
          \<longrightarrow> find_video_file env = None)"
proof (intro conjI impI)
  assume "filter (\<lambda>f. startswith f ''MainScene'' \<and> endswith f ''.mp4'') names = []"
  with assms show "find_video_file env = None" by (simp add: find_video_file_def)
next
  define video_files where
    "video_files = filter (\<lambda>f. startswith f ''MainScene'' \<and> endswith f ''.mp4'') names"
  assume "filter (\<lambda>f. startswith f ''MainScene'' \<and> endswith f ''.mp4'') names \<noteq> []
            \<and> (\<forall>f \<in> set (filter (\<lambda>f. startswith f ''MainScene'' \<and> endswith f ''.mp4'') names).
                  \<exists>t. getmtime env (path_join VIDEO_FOLDER f) = Inr t)"
  then have ne: "video_files \<noteq> []"
    and rd: "\<forall>f \<in> set video_files. \<exists>t. getmtime env (path_join VIDEO_FOLDER f) = Inr t"
    by (simp_all add: video_files_def)
  from sort_reverse_head [OF ne rd]
  obtain y ys k where s: "sort_reverse (\<lambda>x. getmtime env (path_join VIDEO_FOLDER x)) video_files
                            = Inr (y # ys)"
    and y: "y \<in> set video_files" and ky: "getmtime env (path_join VIDEO_FOLDER y) = Inr k"
    and mx: "\<forall>x \<in> set video_files. \<forall>k'. getmtime env (path_join VIDEO_FOLDER x) = Inr k' \<longrightarrow> k' \<le> k"
    by blast
  have r: "find_video_file env = Some (path_join VIDEO_FOLDER y)"
    using assms ne s by (simp add: find_video_file_def video_files_def [symmetric])
  from y have y': "y \<in> set names" "startswith y ''MainScene''" "endswith y ''.mp4''"
    by (simp_all add: video_files_def)
  have "t' \<le> k" if "g \<in> set names" "startswith g ''MainScene'' \<and> endswith g ''.mp4''
                        \<and> getmtime env (path_join VIDEO_FOLDER g) = Inr t'" for g t'
    using that mx by (auto simp: video_files_def)
  with r y' ky
  show "\<exists>f t. f \<in> set names \<and> startswith f ''MainScene'' \<and> endswith f ''.mp4''
                  \<and> getmtime env (path_join VIDEO_FOLDER f) = Inr t
                  \<and> (\<forall>g \<in> set names. \<forall>t'.
                        startswith g ''MainScene'' \<and> endswith g ''.mp4''
                        \<and> getmtime env (path_join VIDEO_FOLDER g) = Inr t' \<longrightarrow> t' \<le> t)
                  \<and> find_video_file env = Some (path_join VIDEO_FOLDER f)"
    by blast
next
  define video_files where
    "video_files = filter (\<lambda>f. startswith f ''MainScene'' \<and> endswith f ''.mp4'') names"
  assume "\<exists>f \<in> set (filter (\<lambda>f. startswith f ''MainScene'' \<and> endswith f ''.mp4'') names).
              \<exists>e. getmtime env (path_join VIDEO_FOLDER f) = Inl e"
  then have bad: "\<exists>f \<in> set video_files. \<exists>e. getmtime env (path_join VIDEO_FOLDER f) = Inl e"
    by (simp only: video_files_def)
  then obtain f where "f \<in> set video_files" by blast
  then have ne: "video_files \<noteq> []" by (cases video_files) simp_all
  from decorate_Inl [OF bad]
  obtain e where "decorate (\<lambda>x. getmtime env (path_join VIDEO_FOLDER x)) video_files = Inl e"
    by blast
  then have "sort_reverse (\<lambda>x. getmtime env (path_join VIDEO_FOLDER x)) video_files = Inl e"
    by (simp add: sort_reverse_def)
  with assms ne show "find_video_file env = None"
    by (simp add: find_video_file_def video_files_def [symmetric])
qed

lemma render_success_scan:
  assumes "read_file env ''fine_tuned_system_prompt.txt'' = Inr system_prompt"
    and "chat_completion env (manim_request system_prompt prompt) = Inr (Some code)"
    and "extract_code code = Some python_code"
    and "write_file env (script_filename env) python_code = Inr ()"
    and "run_process env (manim_command (script_filename env)) = Inr result"
    and "returncode result = 0"
  shows "generate_manim_animation env prompt = find_video_file env"
  using assms by (simp add: generate_manim_animation_def)

text \<open>
  C8 as stated fails: after a render with exit code 0 and with two matching files in
  the folder, the renderer returns \<^verbatim>\<open>None\<close> and no path, because the modification
  time of one of them cannot be read.
\<close>

theorem unreadable_mtime_counterexample:
  "run_process unreadable_env (manim_command (script_filename unreadable_env))
     = Inr \<lparr>returncode = 0, stderr = []\<rparr>
   \<and> listdir unreadable_env VIDEO_FOLDER
       = Inr [''MainScene_old.mp4'', ''Intro.mp4'', ''MainScene.mp4'', ''MainScene.py'']
   \<and> filter (\<lambda>f. startswith f ''MainScene'' \<and> endswith f ''.mp4'')
         [''MainScene_old.mp4'', ''Intro.mp4'', ''MainScene.mp4'', ''MainScene.py'']
       = [''MainScene_old.mp4'', ''MainScene.mp4'']
   \<and> getmtime unreadable_env (path_join VIDEO_FOLDER ''MainScene_old.mp4'')
       = Inl FileNotFoundError
   \<and> generate_manim_animation unreadable_env ''explain how black holes form'' = None"
proof -
  have "run_process unreadable_env (manim_command (script_filename unreadable_env))
     = Inr \<lparr>returncode = 0, stderr = []\<rparr>"
    by (simp add: unreadable_env_def rendered_env_def)
  moreover have "listdir unreadable_env VIDEO_FOLDER
       = Inr [''MainScene_old.mp4'', ''Intro.mp4'', ''MainScene.mp4'', ''MainScene.py'']"
    by (simp add: unreadable_env_def rendered_env_def)
  moreover have "getmtime unreadable_env (path_join VIDEO_FOLDER ''MainScene_old.mp4'')
       = Inl FileNotFoundError"
    by code_simp
  moreover have "generate_manim_animation unreadable_env ''explain how black holes form'' = None"
    by code_simp
  moreover have "filter (\<lambda>f. startswith f ''MainScene'' \<and> endswith f ''.mp4'')
         [''MainScene_old.mp4'', ''Intro.mp4'', ''MainScene.mp4'', ''MainScene.py'']
       = [''MainScene_old.mp4'', ''MainScene.mp4'']"
    by code_simp
  ultimately show ?thesis by blast
qed

text \<open>
  C8, amended. After a render that exits with code 0, the renderer lists the video
  folder and keeps the names that start with \<^verbatim>\<open>MainScene\<close> and end with
  \<^verbatim>\<open>.mp4\<close>. With no such name it returns \<^verbatim>\<open>None\<close> (the outcome the specification
  calls \<^verbatim>\<open>ArtifactNotProduced\<close>). With matching names whose modification times can
  all be read it returns the path of a matching file whose modification time is the
  greatest. When reading the modification time of a matching file raises, it returns
  \<^verbatim>\<open>None\<close>.
\<close>

theorem render_returns_most_recent_file:
  assumes "read_file env ''fine_tuned_system_prompt.txt'' = Inr system_prompt"
    and "chat_completion env (manim_request system_prompt prompt) = Inr (Some code)"
    and "extract_code code = Some python_code"
    and "write_file env (script_filename env) python_code = Inr ()"
    and "run_process env (manim_command (script_filename env)) = Inr result"
    and "returncode result = 0"
    and "listdir env VIDEO_FOLDER = Inr names"
  shows "(filter (\<lambda>f. startswith f ''MainScene'' \<and> endswith f ''.mp4'') names = []
            \<longrightarrow> generate_manim_animation env prompt = None)
       \<and> (filter (\<lambda>f. startswith f ''MainScene'' \<and> endswith f ''.mp4'') names \<noteq> []
            \<and> (\<forall>f \<in> set (filter (\<lambda>f. startswith f ''MainScene'' \<and> endswith f ''.mp4'') names).
                  \<exists>t. getmtime env (path_join VIDEO_FOLDER f) = Inr t)
          \<longrightarrow> (\<exists>f t. f \<in> set names \<and> startswith f ''MainScene'' \<and> endswith f ''.mp4''
                  \<and> getmtime env (path_join VIDEO_FOLDER f) = Inr t
                  \<and> (\<forall>g \<in> set names. \<forall>t'.
                        startswith g ''MainScene'' \<and> endswith g ''.mp4''
                        \<and> getmtime env (path_join VIDEO_FOLDER g) = Inr t' \<longrightarrow> t' \<le> t)
                  \<and> generate_manim_animation env prompt = Some (path_join VIDEO_FOLDER f)))
       \<and> ((\<exists>f \<in> set (filter (\<lambda>f. startswith f ''MainScene'' \<and> endswith f ''.mp4'') names).
              \<exists>e. getmtime env (path_join VIDEO_FOLDER f) = Inl e)
          \<longrightarrow> generate_manim_animation env prompt = None)"
  unfolding render_success_scan [OF assms(1-6)] by (rule find_video_file_scan [OF assms(7)])

lemma rendered_env_calls:
  "read_file rendered_env ''fine_tuned_system_prompt.txt'' = Inr ''Write Manim code.''"
  "chat_completion rendered_env (manim_request ''Write Manim code.'' p) = Inr (Some fenced_reply)"
  "write_file rendered_env (script_filename rendered_env) ''class MainScene(Scene): pass'' = Inr ()"
  "run_process rendered_env (manim_command (script_filename rendered_env))
     = Inr \<lparr>returncode = 0, stderr = []\<rparr>"
  "listdir rendered_env VIDEO_FOLDER
     = Inr [''MainScene_old.mp4'', ''Intro.mp4'', ''MainScene.mp4'', ''MainScene.py'']"
  by (simp_all add: rendered_env_def no_tool_env_def offline_env_def)

lemma no_artifact_env_calls:
  "read_file no_artifact_env ''fine_tuned_system_prompt.txt'' = Inr ''Write Manim code.''"
  "chat_completion no_artifact_env (manim_request ''Write Manim code.'' p)
     = Inr (Some fenced_reply)"
  "write_file no_artifact_env (script_filename no_artifact_env) ''class MainScene(Scene): pass''
     = Inr ()"
  "run_process no_artifact_env (manim_command (script_filename no_artifact_env))
     = Inr \<lparr>returncode = 0, stderr = []\<rparr>"
  "listdir no_artifact_env VIDEO_FOLDER = Inr [''Intro.mp4'', ''MainScene.py'']"
  by (simp_all add: no_artifact_env_def rendered_env_def no_tool_env_def offline_env_def)

lemma unreadable_env_calls:
  "read_file unreadable_env ''fine_tuned_system_prompt.txt'' = Inr ''Write Manim code.''"
  "chat_completion unreadable_env (manim_request ''Write Manim code.'' p)
     = Inr (Some fenced_reply)"
  "write_file unreadable_env (script_filename unreadable_env) ''class MainScene(Scene): pass''
     = Inr ()"
  "run_process unreadable_env (manim_command (script_filename unreadable_env))
     = Inr \<lparr>returncode = 0, stderr = []\<rparr>"
  "listdir unreadable_env VIDEO_FOLDER
     = Inr [''MainScene_old.mp4'', ''Intro.mp4'', ''MainScene.mp4'', ''MainScene.py'']"
  by (simp_all add: unreadable_env_def rendered_env_def no_tool_env_def offline_env_def)

lemma no_artifact_env_matches:
  "filter (\<lambda>f. startswith f ''MainScene'' \<and> endswith f ''.mp4'')
     [''Intro.mp4'', ''MainScene.py''] = []"
  by code_simp

lemma rendered_env_matches:
  "filter (\<lambda>f. startswith f ''MainScene'' \<and> endswith f ''.mp4'')
     [''MainScene_old.mp4'', ''Intro.mp4'', ''MainScene.mp4'', ''MainScene.py'']
   = [''MainScene_old.mp4'', ''MainScene.mp4'']"
  by code_simp

lemma rendered_env_result:
  "generate_manim_animation rendered_env ''explain how black holes form''
     = Some ''media/videos/MainScene.mp4''"
  by code_simp

lemma no_artifact_env_result:
  "generate_manim_animation no_artifact_env ''explain how black holes form'' = None"
  by code_simp

text \<open>
  Witness of the amended C8: of two matching files the newer one is returned; without
  a matching file, and with a matching file whose modification time cannot be read,
  the result is \<^verbatim>\<open>None\<close>.
\<close>

theorem render_returns_most_recent_file_witness:
  "read_file rendered_env ''fine_tuned_system_prompt.txt'' = Inr ''Write Manim code.''
   \<and> chat_completion rendered_env
         (manim_request ''Write Manim code.'' ''explain how black holes form'')
       = Inr (Some fenced_reply)
   \<and> extract_code fenced_reply = Some ''class MainScene(Scene): pass''
   \<and> write_file rendered_env (script_filename rendered_env) ''class MainScene(Scene): pass''
       = Inr ()
   \<and> run_process rendered_env (manim_command (script_filename rendered_env))
       = Inr \<lparr>returncode = 0, stderr = []\<rparr>
   \<and> listdir rendered_env VIDEO_FOLDER
       = Inr [''MainScene_old.mp4'', ''Intro.mp4'', ''MainScene.mp4'', ''MainScene.py'']
   \<and> getmtime rendered_env (path_join VIDEO_FOLDER ''MainScene_old.mp4'') = Inr 100
   \<and> getmtime rendered_env (path_join VIDEO_FOLDER ''MainScene.mp4'') = Inr 200
   \<and> generate_manim_animation rendered_env ''explain how black holes form''
       = Some (path_join VIDEO_FOLDER ''MainScene.mp4'')
   \<and> listdir no_artifact_env VIDEO_FOLDER = Inr [''Intro.mp4'', ''MainScene.py'']
   \<and> generate_manim_animation no_artifact_env ''explain how black holes form'' = None
   \<and> getmtime unreadable_env (path_join VIDEO_FOLDER ''MainScene_old.mp4'')
       = Inl FileNotFoundError
   \<and> generate_manim_animation unreadable_env ''explain how black holes form'' = None"
proof -
  note na = no_artifact_env_calls
  note ur = unreadable_env_calls
  have rc: "returncode \<lparr>returncode = 0, stderr = []\<rparr> = 0" by simp
  from render_returns_most_recent_file
         [OF na(1) na(2) [of "''explain how black holes form''"] extract_fenced_reply
             na(3) na(4) rc na(5)] no_artifact_env_matches
  have none1: "generate_manim_animation no_artifact_env ''explain how black holes form'' = None"
    by blast
  have gone: "getmtime unreadable_env (path_join VIDEO_FOLDER ''MainScene_old.mp4'')
       = Inl FileNotFoundError"
    by code_simp
  then have "\<exists>f \<in> set [''MainScene_old.mp4'', ''MainScene.mp4''].
               \<exists>e. getmtime unreadable_env (path_join VIDEO_FOLDER f) = Inl e"
    by simp
  then have bad:
    "\<exists>f \<in> set (filter (\<lambda>f. startswith f ''MainScene'' \<and> endswith f ''.mp4'')
                   [''MainScene_old.mp4'', ''Intro.mp4'', ''MainScene.mp4'', ''MainScene.py'']).
       \<exists>e. getmtime unreadable_env (path_join VIDEO_FOLDER f) = Inl e"
    by (simp only: rendered_env_matches)
  from render_returns_most_recent_file
         [OF ur(1) ur(2) [of "''explain how black holes form''"] extract_fenced_reply
             ur(3) ur(4) rc ur(5)] bad
  have none2: "generate_manim_animation unreadable_env ''explain how black holes form'' = None"
    by blast
  note calls = rendered_env_calls
  have old: "getmtime rendered_env (path_join VIDEO_FOLDER ''MainScene_old.mp4'') = Inr 100"
    by code_simp
  have new: "getmtime rendered_env (path_join VIDEO_FOLDER ''MainScene.mp4'') = Inr 200"
    by code_simp
  have readable:
    "\<forall>f \<in> set [''MainScene_old.mp4'', ''MainScene.mp4''].
       \<exists>t. getmtime rendered_env (path_join VIDEO_FOLDER f) = Inr t"
    using old new by simp
  from render_returns_most_recent_file
         [OF calls(1) calls(2) [of "''explain how black holes form''"] extract_fenced_reply
             calls(3) calls(4) rc calls(5)]
  have "\<exists>f t. f \<in> set [''MainScene_old.mp4'', ''Intro.mp4'', ''MainScene.mp4'', ''MainScene.py'']
          \<and> startswith f ''MainScene'' \<and> endswith f ''.mp4''
          \<and> getmtime rendered_env (path_join VIDEO_FOLDER f) = Inr t
          \<and> (\<forall>g \<in> set [''MainScene_old.mp4'', ''Intro.mp4'', ''MainScene.mp4'', ''MainScene.py''].
                \<forall>t'. startswith g ''MainScene'' \<and> endswith g ''.mp4''
                  \<and> getmtime rendered_env (path_join VIDEO_FOLDER g) = Inr t' \<longrightarrow> t' \<le> t)
          \<and> generate_manim_animation rendered_env ''explain how black holes form''
              = Some (path_join VIDEO_FOLDER f)"
    using readable by (simp only: rendered_env_matches) simp
  then obtain f t where f0: "f \<in> set [''MainScene_old.mp4'', ''Intro.mp4'', ''MainScene.mp4'', ''MainScene.py'']"
    and f1: "startswith f ''MainScene'' \<and> endswith f ''.mp4''"
    and t: "getmtime rendered_env (path_join VIDEO_FOLDER f) = Inr t"
    and mx: "\<forall>g \<in> set [''MainScene_old.mp4'', ''Intro.mp4'', ''MainScene.mp4'', ''MainScene.py''].
                \<forall>t'. startswith g ''MainScene'' \<and> endswith g ''.mp4''
                  \<and> getmtime rendered_env (path_join VIDEO_FOLDER g) = Inr t' \<longrightarrow> t' \<le> t"
    and r: "generate_manim_animation rendered_env ''explain how black holes form''
              = Some (path_join VIDEO_FOLDER f)"
    by blast
  from f0 f1 have "f \<in> set (filter (\<lambda>f. startswith f ''MainScene'' \<and> endswith f ''.mp4'')
                      [''MainScene_old.mp4'', ''Intro.mp4'', ''MainScene.mp4'', ''MainScene.py''])"
    unfolding set_filter by blast
  then have f: "f \<in> set [''MainScene_old.mp4'', ''MainScene.mp4'']"
    by (simp only: rendered_env_matches)
  have sw: "startswith ''MainScene.mp4'' ''MainScene'' \<and> endswith ''MainScene.mp4'' ''.mp4''"
    by code_simp
  from mx sw new have "(200::rat) \<le> t" by simp
  with f t old have "f = ''MainScene.mp4''" by auto
  with r calls(1) calls(2) [of "''explain how black holes form''"] calls(3,4,5)
    extract_fenced_reply old new na(5) none1 gone none2 show ?thesis by simp
qed

section \<open>Properties of the quiz synthesizer\<close>

lemma map_of_update_other:
  "k \<noteq> k' \<Longrightarrow> map_of (AList.update k v m) k' = map_of m k'"
  by (simp add: update_conv')

lemma generate_quiz_success:
  assumes "chat_completion env (quiz_request caption) = Inr (Some content)"
    and "json_loads env content = Inr (JObj m)"
  shows "generate_quiz_with_gemini env caption vid =
           JObj (AList.update ''video_id'' (JStr vid)
                  (AList.update ''quiz_id'' (JStr (generate_quiz_id env)) m))"
  using assms by (simp add: generate_quiz_with_gemini_def)

lemma quiz_questions_update:
  "quiz_questions (JObj (AList.update ''video_id'' v (AList.update ''quiz_id'' w m)))
     = quiz_questions (JObj m)"
  by (simp add: quiz_questions_def map_of_update_other)

lemma quiz_questions_fallback: "quiz_questions (fallback_quiz env vid) = []"
  by (simp add: quiz_questions_def fallback_quiz_def)

text \<open>
  C1 as stated fails: a model response that is valid JSON with three questions comes
  back as a quiz with these three questions, not as the unpopulated quiz.
\<close>

theorem three_question_quiz_counterexample:
  "chat_completion three_question_env (quiz_request ''narration'') = Inr (Some three_question_reply)
   \<and> json_loads three_question_env three_question_reply
       = Inr (JObj [(''questions'', JArr three_questions)])
   \<and> length three_questions = 3
   \<and> generate_quiz_with_gemini three_question_env ''narration'' ''vid_0a1b2c3d''
       = JObj [(''questions'', JArr three_questions), (''quiz_id'', JStr ''quiz_8c9d0e1f''),
               (''video_id'', JStr ''vid_0a1b2c3d'')]
   \<and> generate_quiz_with_gemini three_question_env ''narration'' ''vid_0a1b2c3d''
       \<noteq> fallback_quiz three_question_env ''vid_0a1b2c3d''"
  by (simp add: generate_quiz_with_gemini_def three_question_env_def offline_env_def
      generate_quiz_id_def fallback_quiz_def three_questions_def)

text \<open>
  C1, amended. When the model response parses to a JSON object, the synthesizer returns
  that object with \<^verbatim>\<open>quiz_id\<close> and \<^verbatim>\<open>video_id\<close> set and its \<^verbatim>\<open>questions\<close> entry
  as parsed, whatever its length: the questions of the result are the questions of the
  response. When the model call raises, when the response has no content, when the
  content is not valid JSON, and when the JSON value is not an object, it returns the
  unpopulated quiz.
\<close>

theorem generate_quiz_returns_parsed_object:
  "(chat_completion env (quiz_request caption) = Inr (Some content)
      \<and> json_loads env content = Inr (JObj m)
    \<longrightarrow> generate_quiz_with_gemini env caption vid =
          JObj (AList.update ''video_id'' (JStr vid)
                 (AList.update ''quiz_id'' (JStr (generate_quiz_id env)) m))
        \<and> getitem (generate_quiz_with_gemini env caption vid) ''questions''
            = getitem (JObj m) ''questions''
        \<and> quiz_questions (generate_quiz_with_gemini env caption vid)
            = quiz_questions (JObj m))
   \<and> (chat_completion env (quiz_request caption) = Inl e
        \<or> chat_completion env (quiz_request caption) = Inr None
        \<or> (chat_completion env (quiz_request caption) = Inr (Some content)
             \<and> (json_loads env content = Inl e'
                  \<or> (json_loads env content = Inr v \<and> (\<forall>m'. v \<noteq> JObj m'))))
    \<longrightarrow> generate_quiz_with_gemini env caption vid = fallback_quiz env vid)"
proof (intro conjI impI)
  assume h: "chat_completion env (quiz_request caption) = Inr (Some content)
      \<and> json_loads env content = Inr (JObj m)"
  then have r: "generate_quiz_with_gemini env caption vid =
          JObj (AList.update ''video_id'' (JStr vid)
                 (AList.update ''quiz_id'' (JStr (generate_quiz_id env)) m))"
    using generate_quiz_success by blast
  then show "generate_quiz_with_gemini env caption vid =
          JObj (AList.update ''video_id'' (JStr vid)
                 (AList.update ''quiz_id'' (JStr (generate_quiz_id env)) m))" .
  show "getitem (generate_quiz_with_gemini env caption vid) ''questions''
            = getitem (JObj m) ''questions''"
    unfolding r by (simp add: map_of_update_other)
  show "quiz_questions (generate_quiz_with_gemini env caption vid) = quiz_questions (JObj m)"
    unfolding r by (rule quiz_questions_update)
next
  assume "chat_completion env (quiz_request caption) = Inl e
        \<or> chat_completion env (quiz_request caption) = Inr None
        \<or> (chat_completion env (quiz_request caption) = Inr (Some content)
             \<and> (json_loads env content = Inl e'
                  \<or> (json_loads env content = Inr v \<and> (\<forall>m'. v \<noteq> JObj m'))))"
  then show "generate_quiz_with_gemini env caption vid = fallback_quiz env vid"
    by (cases v) (auto simp: generate_quiz_with_gemini_def)
qed

text \<open>Witness of the amended C1: the three-question response, and a model call that raises.\<close>

theorem generate_quiz_returns_parsed_object_witness:
  "chat_completion three_question_env (quiz_request ''narration'') = Inr (Some three_question_reply)
   \<and> json_loads three_question_env three_question_reply
       = Inr (JObj [(''questions'', JArr three_questions)])
   \<and> getitem (generate_quiz_with_gemini three_question_env ''narration'' ''vid_0a1b2c3d'')
         ''questions'' = Inr (JArr three_questions)
   \<and> chat_completion offline_env (quiz_request ''narration'') = Inl OtherException
   \<and> generate_quiz_with_gemini offline_env ''narration'' ''vid_0a1b2c3d''
       = fallback_quiz offline_env ''vid_0a1b2c3d''"
proof -
  have a: "chat_completion three_question_env (quiz_request ''narration'')
             = Inr (Some three_question_reply)"
    by (simp add: three_question_env_def)
  have b: "json_loads three_question_env three_question_reply
             = Inr (JObj [(''questions'', JArr three_questions)])"
    by (simp add: three_question_env_def)
  have c: "chat_completion offline_env (quiz_request ''narration'') = Inl OtherException"
    by (simp add: offline_env_def)
  from generate_quiz_returns_parsed_object
         [of three_question_env "''narration''" three_question_reply
            "[(''questions'', JArr three_questions)]" "''vid_0a1b2c3d''"] a b
  have d: "getitem (generate_quiz_with_gemini three_question_env ''narration'' ''vid_0a1b2c3d'')
         ''questions'' = Inr (JArr three_questions)"
    by simp
  from generate_quiz_returns_parsed_object
         [of offline_env "''narration''" _ _ "''vid_0a1b2c3d''" OtherException] c
  have "generate_quiz_with_gemini offline_env ''narration'' ''vid_0a1b2c3d''
       = fallback_quiz offline_env ''vid_0a1b2c3d''"
    by blast
  with a b c d show ?thesis by blast
qed

text \<open>
  C2 as stated fails: the synthesizer returns a quiz with four questions of which one
  has three options, two of them equal, and an answer that is not among them.
\<close>

theorem unchecked_question_counterexample:
  "length (quiz_questions
             (generate_quiz_with_gemini bad_question_env ''narration'' ''vid_0a1b2c3d'')) = 4
   \<and> bad_question \<in> set (quiz_questions
             (generate_quiz_with_gemini bad_question_env ''narration'' ''vid_0a1b2c3d''))
   \<and> getitem bad_question ''options'' = Inr (JArr [JStr ''7'', JStr ''7'', JStr ''8''])
   \<and> getitem bad_question ''answer'' = Inr (JStr ''9'')
   \<and> \<not> question_inv bad_question"
proof -
  have "generate_quiz_with_gemini bad_question_env ''narration'' ''vid_0a1b2c3d''
          = JObj (AList.update ''video_id'' (JStr ''vid_0a1b2c3d'')
                   (AList.update ''quiz_id'' (JStr (generate_quiz_id bad_question_env))
                      [(''questions'', JArr (three_questions @ [bad_question]))]))"
    by (rule generate_quiz_success [where content = bad_question_reply])
       (simp_all add: bad_question_env_def)
  then have q: "quiz_questions
             (generate_quiz_with_gemini bad_question_env ''narration'' ''vid_0a1b2c3d'')
          = three_questions @ [bad_question]"
    by (simp add: quiz_questions_def)
  have "\<not> question_inv bad_question" by code_simp
  moreover have "getitem bad_question ''options'' = Inr (JArr [JStr ''7'', JStr ''7'', JStr ''8''])"
    and "getitem bad_question ''answer'' = Inr (JStr ''9'')"
    by (simp_all add: bad_question_def)
  ultimately show ?thesis using q by (simp add: three_questions_def)
qed

text \<open>
  C2, amended. The questions of every populated quiz that the synthesizer returns are
  the questions of the JSON object parsed from the model response, unchanged; so each
  of them satisfies \<open>answer \<in> options\<close>, four options and distinct options exactly
  when the model response does.
\<close>

theorem populated_quiz_questions_from_model:
  assumes "quiz_questions (generate_quiz_with_gemini env caption vid) \<noteq> []"
  shows "\<exists>content m.
           chat_completion env (quiz_request caption) = Inr (Some content)
           \<and> json_loads env content = Inr (JObj m)
           \<and> quiz_questions (generate_quiz_with_gemini env caption vid) = quiz_questions (JObj m)
           \<and> (list_all question_inv (quiz_questions (generate_quiz_with_gemini env caption vid))
                \<longleftrightarrow> list_all question_inv (quiz_questions (JObj m)))"
proof (cases "chat_completion env (quiz_request caption)")
  case (Inl e)
  with assms show ?thesis
    by (simp add: generate_quiz_with_gemini_def quiz_questions_fallback)
next
  case (Inr reply)
  show ?thesis
  proof (cases reply)
    case None
    with Inr assms show ?thesis
      by (simp add: generate_quiz_with_gemini_def quiz_questions_fallback)
  next
    case (Some content)
    show ?thesis
    proof (cases "json_loads env content")
      case (Inl e)
      with Inr Some assms show ?thesis
        by (simp add: generate_quiz_with_gemini_def quiz_questions_fallback)
    next
      case parsed: (Inr v)
      show ?thesis
      proof (cases "\<exists>m. v = JObj m")
        case True
        then obtain m where m: "v = JObj m" by blast
        from generate_quiz_success [of env caption content m vid] Inr Some parsed m
        have "quiz_questions (generate_quiz_with_gemini env caption vid) = quiz_questions (JObj m)"
          by (simp add: quiz_questions_update)
        with Inr Some parsed m show ?thesis by simp
      next
        case False
        with Inr Some parsed have "generate_quiz_with_gemini env caption vid = fallback_quiz env vid"
          by (cases v) (auto simp: generate_quiz_with_gemini_def)
        with assms show ?thesis by (simp add: quiz_questions_fallback)
      qed
    qed
  qed
qed

text \<open>Witness of the amended C2.\<close>

theorem populated_quiz_questions_from_model_witness:
  "quiz_questions (generate_quiz_with_gemini bad_question_env ''narration'' ''vid_0a1b2c3d'') \<noteq> []
   \<and> (\<exists>content m.
           chat_completion bad_question_env (quiz_request ''narration'') = Inr (Some content)
           \<and> json_loads bad_question_env content = Inr (JObj m)
           \<and> quiz_questions (generate_quiz_with_gemini bad_question_env ''narration''
                 ''vid_0a1b2c3d'') = quiz_questions (JObj m))"
proof -
  have "length (quiz_questions
             (generate_quiz_with_gemini bad_question_env ''narration'' ''vid_0a1b2c3d'')) = 4"
    by (simp add: generate_quiz_with_gemini_def bad_question_env_def quiz_questions_def
        three_questions_def)
  then have ne: "quiz_questions
             (generate_quiz_with_gemini bad_question_env ''narration'' ''vid_0a1b2c3d'') \<noteq> []"
    by auto
  from populated_quiz_questions_from_model [OF ne] ne show ?thesis by blast
qed

end
